theory Spec2Isabelle
  imports Complex_Main "HOL-Library.AList"
begin

section \<open>Python strings\<close>

text \<open>
  A Python \<open>str\<close> is modelled as a \<open>string\<close>, one \<open>char\<close> per code point, for
  text whose code points are below 256. \<open>isspace\<close> lists the code points below 256 that
  \<open>str.isspace\<close> accepts; \<open>str.strip()\<close> and \<open>str.split()\<close> use the same set.
\<close>

definition isspace :: "char \<Rightarrow> bool" where
  "isspace c = ((of_char c :: nat) \<in> {9, 10, 11, 12, 13, 28, 29, 30, 31, 32, 133, 160})"

text \<open>\<open>s.strip()\<close>: whitespace removed at both ends.\<close>

definition strip :: "string \<Rightarrow> string" where
  "strip s = rev (dropWhile isspace (rev (dropWhile isspace s)))"

text \<open>\<open>s.split(sep)\<close> for a one-character separator: empty pieces are kept.\<close>

fun split_on :: "char \<Rightarrow> string \<Rightarrow> string list" where
  "split_on sep [] = [[]]"
| "split_on sep (x # xs) =
     (if x = sep then [] # split_on sep xs
      else (case split_on sep xs of
              [] \<Rightarrow> [[x]]
            | t # ts \<Rightarrow> (x # t) # ts))"

text \<open>
  \<open>s.split()\<close> with no separator: runs of whitespace separate the words, and no
  empty word is produced. \<open>cur\<close> is the word being read, reversed.
\<close>

fun split_ws :: "string \<Rightarrow> string \<Rightarrow> string list" where
  "split_ws cur [] = (if cur = [] then [] else [rev cur])"
| "split_ws cur (x # xs) =
     (if isspace x
      then (if cur = [] then split_ws [] xs else rev cur # split_ws [] xs)
      else split_ws (x # cur) xs)"

definition split_words :: "string \<Rightarrow> string list" where
  "split_words s = split_ws [] s"

text \<open>\<open>sep.join(parts)\<close>.\<close>

fun join :: "string \<Rightarrow> string list \<Rightarrow> string" where
  "join sep [] = []"
| "join sep [p] = p"
| "join sep (p # q # ps) = p @ sep @ join sep (q # ps)"

text \<open>
  \<open>str.lower()\<close> and \<open>str.upper()\<close> on the ASCII letters. The source only compares
  their results with ASCII literals; on code points below 256 Python maps a non-ASCII
  letter to non-ASCII text, except \<open>\<ss>\<close> whose upper case is \<open>SS\<close>, a pair that
  occurs in none of the literals compared with. Membership in those literal lists is
  therefore the same here as in Python.
\<close>

definition lower_char :: "char \<Rightarrow> char" where
  "lower_char c =
     (case map_of (zip ''ABCDEFGHIJKLMNOPQRSTUVWXYZ'' ''abcdefghijklmnopqrstuvwxyz'') c of
        Some l \<Rightarrow> l
      | None \<Rightarrow> c)"

definition upper_char :: "char \<Rightarrow> char" where
  "upper_char c =
     (case map_of (zip ''abcdefghijklmnopqrstuvwxyz'' ''ABCDEFGHIJKLMNOPQRSTUVWXYZ'') c of
        Some u \<Rightarrow> u
      | None \<Rightarrow> c)"

definition lower :: "string \<Rightarrow> string" where
  "lower s = map lower_char s"

definition upper :: "string \<Rightarrow> string" where
  "upper s = map upper_char s"

text \<open>\<open>s.endswith(suffix)\<close>.\<close>

definition endswith :: "string \<Rightarrow> string \<Rightarrow> bool" where
  "endswith s suffix = (length suffix \<le> length s \<and> drop (length s - length suffix) s = suffix)"

section \<open>The pending-downloads store\<close>

text \<open>
  One entry of \<open>productions/pending_downloads.json\<close>. Times are \<open>datetime\<close>
  values, counted in microseconds (the resolution of \<open>datetime\<close>). The key
  \<open>confirmed\<close> is read with \<open>info.get('confirmed')\<close>, so it may be absent.
\<close>

record entry =
  title :: string
  size_mb :: rat
  download_url :: string
  timestamp :: int
  confirmed :: "bool option"
  confirmed_at :: "int option"
  video_path :: string

text \<open>The truth value of \<open>info.get('confirmed')\<close>.\<close>

definition is_confirmed :: "entry \<Rightarrow> bool" where
  "is_confirmed info = (case confirmed info of None \<Rightarrow> False | Some b \<Rightarrow> b)"

text \<open>\<open>timedelta(hours=hours)\<close> in microseconds.\<close>

definition timedelta_hours :: "int \<Rightarrow> int" where
  "timedelta_hours hours = hours * 3600000000"

text \<open>
  The messages sent to the operator, one constructor per message template of the two
  source files, with the values the template interpolates.
\<close>

datatype notice =
    DM_InvalidId string
  | DM_DownloadConfirmed string rat
  | DM_RemoveError
  | DM_AlreadyRemoved
  | DM_CleanupDone nat nat
  | DM_ExpiredDone nat int nat
  | NothingPending
  | PendingList int "(string \<times> entry) list"
  | NoPendingDownload
  | InvalidId string
  | DownloadConfirmed string rat nat
  | ConfirmedAlreadyRemoved nat
  | NothingToClean
  | CleanupDone nat nat nat
  | ExpiredDone nat int nat nat
  | ConfirmUsage
  | HelpText
  | AnswerCallback string string
  | WorkflowCancelledNotice
  | WorkflowCancelledShort
  | Reminder int
  | AskScript
  | FileReceived
  | FileError
  | NoScriptYet
  | PartReceived nat nat
  | Welcome
  | AskTitle
  | AskDescription
  | AskTags
  | TimeExpired
  | TitleReceived string
  | DescriptionReceived string
  | TagsReceived nat
  | ScriptNotReceived
  | ScriptReceived nat rat int string
  | ProductionError

text \<open>
  What the functions read and write outside their arguments: the pending-downloads file
  (\<open>None\<close> when it does not exist; a JSON object, hence a list of pairs in file order
  with distinct keys), the paths that exist on disk, the paths whose removal raises
  (\<open>os.remove\<close> fails), the cancel-flag file, the production files written, and the
  messages sent so far, oldest first.
\<close>

record cancel_data =
  cancel_timestamp :: int
  cancel_reason :: "string option"

record video_data =
  video_id :: string
  vd_timestamp :: int
  vd_title :: string
  vd_description :: string
  vd_tags :: "string list"
  vd_script :: string
  vd_status :: string
  word_count :: nat
  estimated_duration :: rat

record world =
  pending_file :: "(string \<times> entry) list option"
  files :: "string set"
  locked :: "string set"
  cancel_flag :: "cancel_data option"
  production_files :: "video_data list"
  sent :: "notice list"

definition send_message :: "notice \<Rightarrow> world \<Rightarrow> world" where
  "send_message n w = w\<lparr>sent := sent w @ [n]\<rparr>"

text \<open>
  \<open>if os.path.exists(p): try: os.remove(p) ... except: ...\<close>: the result says
  whether the file was removed.
\<close>

definition remove_if_exists :: "string \<Rightarrow> world \<Rightarrow> bool \<times> world" where
  "remove_if_exists p w =
     (if p \<in> files w
      then (if p \<in> locked w then (False, w) else (True, w\<lparr>files := files w - {p}\<rparr>))
      else (False, w))"

text \<open>\<open>for video_id in to_remove: del pending[video_id]\<close>.\<close>

fun del_all :: "string list \<Rightarrow> (string \<times> entry) list \<Rightarrow> (string \<times> entry) list" where
  "del_all [] pending = pending"
| "del_all (k # ks) pending = del_all ks (AList.delete k pending)"

subsection \<open>manage\_downloads.py: class DownloadManager\<close>

definition DownloadManager_load_pending :: "world \<Rightarrow> (string \<times> entry) list" where
  "DownloadManager_load_pending w = (case pending_file w of None \<Rightarrow> [] | Some m \<Rightarrow> m)"

definition DownloadManager_save_pending :: "(string \<times> entry) list \<Rightarrow> world \<Rightarrow> world" where
  "DownloadManager_save_pending m w = w\<lparr>pending_file := Some m\<rparr>"

text \<open>The first loop of \<open>cleanup_confirmed\<close>, with \<open>to_remove\<close> and the counter.\<close>

fun DownloadManager_confirmed_scan ::
  "(string \<times> entry) list \<Rightarrow> string list \<Rightarrow> nat \<Rightarrow> world \<Rightarrow> string list \<times> nat \<times> world" where
  "DownloadManager_confirmed_scan [] to_remove confirmed_count w = (to_remove, confirmed_count, w)"
| "DownloadManager_confirmed_scan ((vid, info) # rest) to_remove confirmed_count w =
     (if is_confirmed info
      then DownloadManager_confirmed_scan rest (to_remove @ [vid]) (confirmed_count + 1)
             (snd (remove_if_exists (video_path info) w))
      else DownloadManager_confirmed_scan rest to_remove confirmed_count w)"

definition DownloadManager_cleanup_confirmed :: "world \<Rightarrow> world" where
  "DownloadManager_cleanup_confirmed w =
     (let pending = DownloadManager_load_pending w;
          (to_remove, confirmed_count, w1) = DownloadManager_confirmed_scan pending [] 0 w;
          pending' = del_all to_remove pending;
          w2 = DownloadManager_save_pending pending' w1
      in send_message (DM_CleanupDone confirmed_count (length pending')) w2)"

text \<open>The first loop of \<open>cleanup_expired\<close>.\<close>

fun DownloadManager_expired_scan ::
  "int \<Rightarrow> (string \<times> entry) list \<Rightarrow> string list \<Rightarrow> nat \<Rightarrow> world \<Rightarrow> string list \<times> nat \<times> world" where
  "DownloadManager_expired_scan cutoff [] to_remove expired_count w = (to_remove, expired_count, w)"
| "DownloadManager_expired_scan cutoff ((vid, info) # rest) to_remove expired_count w =
     (if \<not> is_confirmed info \<and> timestamp info < cutoff
      then DownloadManager_expired_scan cutoff rest (to_remove @ [vid]) (expired_count + 1)
             (snd (remove_if_exists (video_path info) w))
      else DownloadManager_expired_scan cutoff rest to_remove expired_count w)"

definition DownloadManager_cleanup_expired :: "int \<Rightarrow> int \<Rightarrow> world \<Rightarrow> world" where
  "DownloadManager_cleanup_expired now hours w =
     (let pending = DownloadManager_load_pending w;
          cutoff = now - timedelta_hours hours;
          (to_remove, expired_count, w1) = DownloadManager_expired_scan cutoff pending [] 0 w;
          pending' = del_all to_remove pending;
          w2 = DownloadManager_save_pending pending' w1
      in send_message (DM_ExpiredDone expired_count hours (length pending')) w2)"

text \<open>
  \<open>confirm_download\<close> returns \<open>False\<close> for an unknown id and \<open>True\<close> otherwise.
  The fields it sets on \<open>info\<close> are lost with the entry it deletes.
\<close>

definition DownloadManager_confirm_download :: "int \<Rightarrow> string \<Rightarrow> world \<Rightarrow> bool \<times> world" where
  "DownloadManager_confirm_download now vid w =
     (let pending = DownloadManager_load_pending w in
      case map_of pending vid of
        None \<Rightarrow> (False, send_message (DM_InvalidId vid) w)
      | Some info0 \<Rightarrow>
          (let info = info0\<lparr>confirmed := Some True, confirmed_at := Some now\<rparr>;
               w1 = (if video_path info \<in> files w
                     then (if video_path info \<in> locked w
                           then send_message DM_RemoveError w
                           else send_message (DM_DownloadConfirmed (title info) (size_mb info))
                                  (w\<lparr>files := files w - {video_path info}\<rparr>))
                     else send_message DM_AlreadyRemoved w);
               pending' = AList.delete vid pending
           in (True, DownloadManager_save_pending pending' w1)))"

subsection \<open>workflow\_manager.py: the download commands\<close>

definition list_pending_downloads :: "int \<Rightarrow> world \<Rightarrow> world" where
  "list_pending_downloads now w =
     (case pending_file w of
        None \<Rightarrow> send_message NothingPending w
      | Some pending \<Rightarrow>
          (if pending = [] then send_message NothingPending w
           else send_message (PendingList now pending) w))"

definition confirm_download :: "int \<Rightarrow> string \<Rightarrow> world \<Rightarrow> world" where
  "confirm_download now vid w =
     (case pending_file w of
        None \<Rightarrow> send_message NoPendingDownload w
      | Some pending \<Rightarrow>
          (case map_of pending vid of
             None \<Rightarrow> send_message (InvalidId vid) w
           | Some info0 \<Rightarrow>
               (let info = info0\<lparr>confirmed := Some True, confirmed_at := Some now\<rparr>;
                    (removed, w1) = remove_if_exists (video_path info) w;
                    pending' = AList.delete vid pending;
                    w2 = w1\<lparr>pending_file := Some pending'\<rparr>
                in if removed
                   then send_message
                          (DownloadConfirmed (title info) (size_mb info) (length pending')) w2
                   else send_message (ConfirmedAlreadyRemoved (length pending')) w2)))"

text \<open>The first loop of \<open>cleanup_confirmed_downloads\<close>, with its two counters.\<close>

fun confirmed_scan ::
  "(string \<times> entry) list \<Rightarrow> string list \<Rightarrow> nat \<Rightarrow> nat \<Rightarrow> world
     \<Rightarrow> string list \<times> nat \<times> nat \<times> world" where
  "confirmed_scan [] to_remove confirmed_count removed_count w =
     (to_remove, confirmed_count, removed_count, w)"
| "confirmed_scan ((vid, info) # rest) to_remove confirmed_count removed_count w =
     (if is_confirmed info
      then (let (removed, w1) = remove_if_exists (video_path info) w
            in confirmed_scan rest (to_remove @ [vid]) (confirmed_count + 1)
                 (if removed then removed_count + 1 else removed_count) w1)
      else confirmed_scan rest to_remove confirmed_count removed_count w)"

definition cleanup_confirmed_downloads :: "world \<Rightarrow> world" where
  "cleanup_confirmed_downloads w =
     (case pending_file w of
        None \<Rightarrow> send_message NothingToClean w
      | Some pending \<Rightarrow>
          (let (to_remove, confirmed_count, removed_count, w1) = confirmed_scan pending [] 0 0 w;
               pending' = del_all to_remove pending;
               w2 = w1\<lparr>pending_file := Some pending'\<rparr>
           in send_message (CleanupDone confirmed_count removed_count (length pending')) w2))"

text \<open>The first loop of \<open>cleanup_expired_downloads\<close>.\<close>

fun expired_scan ::
  "int \<Rightarrow> (string \<times> entry) list \<Rightarrow> string list \<Rightarrow> nat \<Rightarrow> nat \<Rightarrow> world
     \<Rightarrow> string list \<times> nat \<times> nat \<times> world" where
  "expired_scan cutoff [] to_remove expired_count removed_count w =
     (to_remove, expired_count, removed_count, w)"
| "expired_scan cutoff ((vid, info) # rest) to_remove expired_count removed_count w =
     (if \<not> is_confirmed info \<and> timestamp info < cutoff
      then (let (removed, w1) = remove_if_exists (video_path info) w
            in expired_scan cutoff rest (to_remove @ [vid]) (expired_count + 1)
                 (if removed then removed_count + 1 else removed_count) w1)
      else expired_scan cutoff rest to_remove expired_count removed_count w)"

definition cleanup_expired_downloads :: "int \<Rightarrow> int \<Rightarrow> world \<Rightarrow> world" where
  "cleanup_expired_downloads now hours w =
     (case pending_file w of
        None \<Rightarrow> send_message NothingToClean w
      | Some pending \<Rightarrow>
          (let cutoff = now - timedelta_hours hours;
               (to_remove, expired_count, removed_count, w1) =
                 expired_scan cutoff pending [] 0 0 w;
               pending' = del_all to_remove pending;
               w2 = w1\<lparr>pending_file := Some pending'\<rparr>
           in send_message
                (ExpiredDone expired_count hours removed_count (length pending')) w2))"

section \<open>The update feed\<close>

text \<open>
  One update of \<open>getUpdates\<close>. A message carries the chat it comes from (compared as
  a string), its text (\<open>message.get('text', '')\<close>) and possibly a document; a
  callback query carries its id and data. An update holds one payload.
\<close>

record document =
  file_name :: string
  file_id :: string

record message =
  chat :: string
  msg_text :: string
  msg_document :: "document option"

record callback_query =
  callback_id :: string
  callback_data :: string

datatype payload = Message message | CallbackQuery callback_query | OtherUpdate

record update =
  update_id :: int
  payload :: payload

text \<open>
  What one \<open>getUpdates\<close> call gives: the request or the decoding of its answer raises
  (\<open>Failed\<close>), the answer is not \<open>ok\<close>, or it holds a batch of updates.
\<close>

datatype response = Failed | NotOk | Batch "update list"

text \<open>
  The two calls that fetch an uploaded document: one of them raises, the file lookup is
  not \<open>ok\<close>, or the content arrives as text.
\<close>

datatype file_fetch = FetchFailed | FetchNotOk | FetchContent string

datatype exn = WorkflowCancelled | Exception

text \<open>The fields of \<open>TelegramCollector\<close>.\<close>

record collector =
  chat_id :: string
  update_offset :: int
  cancelled :: bool

text \<open>\<open>_get_last_update_id\<close>, from the answer to \<open>getUpdates(offset=-1)\<close>.\<close>

definition get_last_update_id :: "response \<Rightarrow> int" where
  "get_last_update_id r =
     (case r of
        Batch (u # us) \<Rightarrow> update_id u + 1
      | _ \<Rightarrow> 0)"

definition TelegramCollector :: "string \<Rightarrow> response \<Rightarrow> collector" where
  "TelegramCollector cid r =
     \<lparr>chat_id = cid, update_offset = get_last_update_id r, cancelled = False\<rparr>"

text \<open>
  \<open>for update in updates: ...\<close>. The body either goes on to the next update
  (\<open>Continue\<close>, also at the end of the body) or leaves the function (\<open>Stop\<close>, a
  \<open>return\<close> or a \<open>raise\<close>); the updates after a \<open>Stop\<close> are not looked at.
\<close>

datatype 'r flow = Continue | Stop 'r

fun for_updates ::
  "(update \<Rightarrow> 's \<Rightarrow> 'r flow \<times> 's) \<Rightarrow> update list \<Rightarrow> 's \<Rightarrow> 'r option \<times> 's" where
  "for_updates body [] s = (None, s)"
| "for_updates body (u # us) s =
     (case body u s of
        (Continue, s1) \<Rightarrow> for_updates body us s1
      | (Stop r, s1) \<Rightarrow> (Some r, s1))"

text \<open>The updates on which the body of the loop runs, in order.\<close>

fun evaluated :: "(update \<Rightarrow> 's \<Rightarrow> 'r flow \<times> 's) \<Rightarrow> update list \<Rightarrow> 's \<Rightarrow> update list" where
  "evaluated body [] s = []"
| "evaluated body (u # us) s =
     (case body u s of
        (Continue, s1) \<Rightarrow> u # evaluated body us s1
      | (Stop r, s1) \<Rightarrow> [u])"

definition cancel_words :: "string list" where
  "cancel_words = [''/cancel'', ''/cancelar'', ''cancel'', ''cancelar'']"

definition finish_words :: "string list" where
  "finish_words = [''PRONTO'', ''DONE'', ''FIM'', ''FINISH'']"

subsection \<open>check\_for\_cancel\<close>

definition check_for_cancel_body ::
  "int \<Rightarrow> update \<Rightarrow> collector \<times> world \<Rightarrow> bool flow \<times> collector \<times> world" where
  "check_for_cancel_body now u s =
     (case s of (c, w) \<Rightarrow>
       (let c1 = c\<lparr>update_offset := update_id u + 1\<rparr> in
        case payload u of
          Message m \<Rightarrow>
            (if chat m \<noteq> chat_id c1 then (Continue, c1, w)
             else if lower (strip (msg_text m)) \<in> set cancel_words
             then (Stop True, c1\<lparr>cancelled := True\<rparr>,
                   send_message WorkflowCancelledNotice
                     (w\<lparr>cancel_flag := Some \<lparr>cancel_timestamp = now,
                          cancel_reason = Some ''User requested cancellation''\<rparr>\<rparr>))
             else (Continue, c1, w))
        | CallbackQuery q \<Rightarrow> (Continue, c1, w)
        | OtherUpdate \<Rightarrow> (Continue, c1, w)))"

definition check_for_cancel ::
  "int \<Rightarrow> response \<Rightarrow> collector \<times> world \<Rightarrow> bool \<times> collector \<times> world" where
  "check_for_cancel now r s =
     (case r of
        Failed \<Rightarrow> (False, s)
      | NotOk \<Rightarrow> (False, s)
      | Batch updates \<Rightarrow>
          (case for_updates (check_for_cancel_body now) updates s of
             (Some b, s1) \<Rightarrow> (b, s1)
           | (None, s1) \<Rightarrow> (False, s1)))"

subsection \<open>wait\_for\_message\<close>

text \<open>\<open>int(x)\<close> of a float: truncation towards zero.\<close>

definition py_int :: "rat \<Rightarrow> int" where
  "py_int x = (if 0 \<le> x then \<lfloor>x\<rfloor> else \<lceil>x\<rceil>)"

text \<open>
  One turn of a polling loop, as the world answers it: the seconds elapsed since the
  loop started when the \<open>while\<close> condition reads the clock and when the body reads it
  again, the answer to the \<open>getUpdates\<close> of \<open>check_for_cancel\<close> (used when that
  check is due) and the answer to the loop's own \<open>getUpdates\<close>. A loop that is still
  running when the list of turns ends has no result (\<open>None\<close>).
\<close>

record round =
  clock_check :: rat
  clock_body :: rat
  cancel_response :: response
  poll_response :: response

definition wait_for_message_body ::
  "int \<Rightarrow> update \<Rightarrow> collector \<times> world \<Rightarrow> (exn + string) flow \<times> collector \<times> world" where
  "wait_for_message_body now u s =
     (case s of (c, w) \<Rightarrow>
       (let c1 = c\<lparr>update_offset := update_id u + 1\<rparr> in
        case payload u of
          Message m \<Rightarrow>
            (if chat m \<noteq> chat_id c1 then (Continue, c1, w)
             else (let text = strip (msg_text m) in
               if lower text \<in> set cancel_words
               then (Stop (Inl WorkflowCancelled), c1\<lparr>cancelled := True\<rparr>,
                     send_message WorkflowCancelledShort
                       (w\<lparr>cancel_flag := Some \<lparr>cancel_timestamp = now,
                            cancel_reason = None\<rparr>\<rparr>))
               else if text \<noteq> [] then (Stop (Inr text), c1, w)
               else (Continue, c1, w)))
        | CallbackQuery q \<Rightarrow> (Continue, c1, w)
        | OtherUpdate \<Rightarrow> (Continue, c1, w)))"

text \<open>
  The \<open>while\<close> loop of \<open>wait_for_message\<close>. The result is \<open>Inr (Some text)\<close> for a
  reply, \<open>Inr None\<close> for the \<open>return None\<close> after the timeout, and
  \<open>Inl WorkflowCancelled\<close> when the exception is raised.
\<close>

fun wait_for_message_loop ::
  "int \<Rightarrow> rat \<Rightarrow> rat \<Rightarrow> int \<Rightarrow> rat \<Rightarrow> round list \<Rightarrow> collector \<times> world
     \<Rightarrow> ((exn + string option) \<times> collector \<times> world) option" where
  "wait_for_message_loop now timeout check_cancel_interval last_reminder last_cancel_check [] s =
     None"
| "wait_for_message_loop now timeout check_cancel_interval last_reminder last_cancel_check
     (r # rs) s =
     (if clock_check r < timeout then
        (let elapsed = clock_body r;
             due = (check_cancel_interval \<le> elapsed - last_cancel_check);
             checked = (if due then check_for_cancel now (cancel_response r) s else (False, s))
         in if fst checked then Some (Inl WorkflowCancelled, snd checked)
            else
              (let last_cancel_check1 = (if due then elapsed else last_cancel_check);
                   remind = (last_reminder < py_int elapsed div 120);
                   s1 = (if remind
                         then (fst (snd checked),
                               send_message (Reminder (py_int ((timeout - elapsed) / 60)))
                                 (snd (snd checked)))
                         else snd checked);
                   last_reminder1 = (if remind then py_int elapsed div 120 else last_reminder)
               in case poll_response r of
                    Failed \<Rightarrow>
                      wait_for_message_loop now timeout check_cancel_interval last_reminder1
                        last_cancel_check1 rs s1
                  | NotOk \<Rightarrow>
                      wait_for_message_loop now timeout check_cancel_interval last_reminder1
                        last_cancel_check1 rs s1
                  | Batch updates \<Rightarrow>
                      (case for_updates (wait_for_message_body now) updates s1 of
                         (Some (Inl e), s2) \<Rightarrow> Some (Inl e, s2)
                       | (Some (Inr text), s2) \<Rightarrow> Some (Inr (Some text), s2)
                       | (None, s2) \<Rightarrow>
                           wait_for_message_loop now timeout check_cancel_interval
                             last_reminder1 last_cancel_check1 rs s2)))
      else Some (Inr None, s))"

definition wait_for_message ::
  "int \<Rightarrow> rat \<Rightarrow> round list \<Rightarrow> collector \<times> world
     \<Rightarrow> ((exn + string option) \<times> collector \<times> world) option" where
  "wait_for_message now timeout rounds s = wait_for_message_loop now timeout 5 0 0 rounds s"

subsection \<open>collect\_script\_multipart\<close>

definition newline :: string where
  "newline = [CHR 0x0A]"

text \<open>
  The part of the loop body from \<open>text = message.get('text', '').strip()\<close> on.
  The state is the collector, the world and \<open>roteiro_partes\<close>.
\<close>

definition script_text ::
  "message \<Rightarrow> collector \<times> world \<times> string list
     \<Rightarrow> (exn + string) flow \<times> collector \<times> world \<times> string list" where
  "script_text m s =
     (case s of (c, w, roteiro_partes) \<Rightarrow>
       (let text = strip (msg_text m) in
        if text = [] then (Continue, s)
        else if lower text \<in> set cancel_words then (Stop (Inl WorkflowCancelled), s)
        else if upper text \<in> set finish_words
        then (if roteiro_partes = []
              then (Continue, c, send_message NoScriptYet w, roteiro_partes)
              else (Stop (Inr (join newline roteiro_partes)), s))
        else (let partes = roteiro_partes @ [text];
                  palavras_atuais = sum_list (map (\<lambda>p. length (split_words p)) partes)
              in (Continue, c,
                  send_message (PartReceived (length partes) palavras_atuais) w, partes))))"

text \<open>The body of \<open>for update in updates\<close> in \<open>collect_script_multipart\<close>.\<close>

definition collect_script_body ::
  "(string \<Rightarrow> file_fetch) \<Rightarrow> update \<Rightarrow> collector \<times> world \<times> string list
     \<Rightarrow> (exn + string) flow \<times> collector \<times> world \<times> string list" where
  "collect_script_body fetch u s =
     (case s of (c, w, roteiro_partes) \<Rightarrow>
       (let c1 = c\<lparr>update_offset := update_id u + 1\<rparr> in
        case payload u of
          Message m \<Rightarrow>
            (if chat m \<noteq> chat_id c1 then (Continue, c1, w, roteiro_partes)
             else
               (case msg_document m of
                  Some d \<Rightarrow>
                    (if endswith (file_name d) ''.txt''
                     then (let w1 = send_message FileReceived w in
                           case fetch (file_id d) of
                             FetchContent roteiro_completo \<Rightarrow>
                               (Stop (Inr roteiro_completo), c1, w1, roteiro_partes)
                           | FetchFailed \<Rightarrow>
                               (Continue, c1, send_message FileError w1, roteiro_partes)
                           | FetchNotOk \<Rightarrow> script_text m (c1, w1, roteiro_partes))
                     else script_text m (c1, w, roteiro_partes))
                | None \<Rightarrow> script_text m (c1, w, roteiro_partes)))
        | CallbackQuery q \<Rightarrow> (Continue, c1, w, roteiro_partes)
        | OtherUpdate \<Rightarrow> (Continue, c1, w, roteiro_partes)))"

text \<open>
  One turn of the \<open>while\<close> loop of \<open>collect_script_multipart\<close>: \<open>Inl\<close> when the
  function returns or raises in this turn, \<open>Inr\<close> the state for the next turn. The
  loop ends when the \<open>while\<close> condition fails or \<open>remaining_time <= 0\<close>; the
  statements after the loop then return what \<open>roteiro_partes\<close> holds.
\<close>

definition collect_script_round ::
  "(string \<Rightarrow> file_fetch) \<Rightarrow> rat \<Rightarrow> round \<Rightarrow> collector \<times> world \<times> string list
     \<Rightarrow> ((exn + string option) \<times> collector \<times> world) + (collector \<times> world \<times> string list)" where
  "collect_script_round fetch timeout r s =
     (if clock_check r < timeout \<and> 0 < py_int (timeout - clock_body r) then
        (case poll_response r of
           Failed \<Rightarrow> Inr s
         | NotOk \<Rightarrow> Inr s
         | Batch updates \<Rightarrow>
             (case for_updates (collect_script_body fetch) updates s of
                (Some (Inl e), c1, w1, partes1) \<Rightarrow> Inl (Inl e, c1, w1)
              | (Some (Inr roteiro_completo), c1, w1, partes1) \<Rightarrow>
                  Inl (Inr (Some roteiro_completo), c1, w1)
              | (None, s1) \<Rightarrow> Inr s1))
      else (case s of (c, w, roteiro_partes) \<Rightarrow>
              Inl (Inr (if roteiro_partes \<noteq> [] then Some (join newline roteiro_partes) else None),
                   c, w)))"

fun collect_script_loop ::
  "(string \<Rightarrow> file_fetch) \<Rightarrow> rat \<Rightarrow> round list \<Rightarrow> collector \<times> world \<times> string list
     \<Rightarrow> ((exn + string option) \<times> collector \<times> world) option" where
  "collect_script_loop fetch timeout [] s = None"
| "collect_script_loop fetch timeout (r # rs) s =
     (case collect_script_round fetch timeout r s of
        Inl result \<Rightarrow> Some result
      | Inr s1 \<Rightarrow> collect_script_loop fetch timeout rs s1)"

text \<open>
  The state of the loop after the given turns, when it is still running after them
  (\<open>None\<close> when the function has returned or raised within them).
\<close>

fun collect_script_running ::
  "(string \<Rightarrow> file_fetch) \<Rightarrow> rat \<Rightarrow> round list \<Rightarrow> collector \<times> world \<times> string list
     \<Rightarrow> (collector \<times> world \<times> string list) option" where
  "collect_script_running fetch timeout [] s = Some s"
| "collect_script_running fetch timeout (r # rs) s =
     (case collect_script_round fetch timeout r s of
        Inl result \<Rightarrow> None
      | Inr s1 \<Rightarrow> collect_script_running fetch timeout rs s1)"

definition collect_script_multipart ::
  "(string \<Rightarrow> file_fetch) \<Rightarrow> rat \<Rightarrow> round list \<Rightarrow> collector \<times> world
     \<Rightarrow> ((exn + string option) \<times> collector \<times> world) option" where
  "collect_script_multipart fetch timeout rounds s =
     (case s of (c, w) \<Rightarrow>
        collect_script_loop fetch timeout rounds (c, send_message AskScript w, []))"

subsection \<open>handle\_download\_commands\<close>

definition startswith :: "string \<Rightarrow> string \<Rightarrow> bool" where
  "startswith s prefix = (take (length prefix) s = prefix)"

definition answer_callback :: "callback_query \<Rightarrow> string \<Rightarrow> world \<Rightarrow> world" where
  "answer_callback q t w = send_message (AnswerCallback (callback_id q) t) w"

definition handle_callback :: "int \<Rightarrow> callback_query \<Rightarrow> world \<Rightarrow> world" where
  "handle_callback now q w =
     (let d = callback_data q in
      if startswith d ''confirm:''
      then confirm_download now (drop 8 d) (answer_callback q ''Processando...'' w)
      else if d = ''cleanup_confirmed''
      then cleanup_confirmed_downloads (answer_callback q ''Limpando...'' w)
      else if d = ''cleanup_expired''
      then cleanup_expired_downloads now 24 (answer_callback q ''Removendo expirados...'' w)
      else answer_callback q ''Comando desconhecido'' w)"

definition handle_download_commands_body ::
  "int \<Rightarrow> update \<Rightarrow> collector \<times> world \<Rightarrow> unit flow \<times> collector \<times> world" where
  "handle_download_commands_body now u s =
     (case s of (c, w) \<Rightarrow>
       (let c1 = c\<lparr>update_offset := update_id u + 1\<rparr> in
        case payload u of
          CallbackQuery q \<Rightarrow> (Continue, c1, handle_callback now q w)
        | OtherUpdate \<Rightarrow> (Continue, c1, w)
        | Message m \<Rightarrow>
            (if chat m \<noteq> chat_id c1 then (Continue, c1, w)
             else (let text = strip (msg_text m) in
               if \<not> startswith text ''/'' then (Continue, c1, w)
               else if text = ''/downloads'' \<or> text = ''/list''
               then (Continue, c1, list_pending_downloads now w)
               else if startswith text ''/confirm ''
               then (let parts = split_words text in
                     if length parts = 2
                     then (Continue, c1, confirm_download now (parts ! 1) w)
                     else (Continue, c1, send_message ConfirmUsage w))
               else if text = ''/cleanup'' then (Continue, c1, cleanup_confirmed_downloads w)
               else if text = ''/help'' then (Continue, c1, send_message HelpText w)
               else (Continue, c1, w)))))"

definition handle_download_commands ::
  "int \<Rightarrow> response \<Rightarrow> collector \<times> world \<Rightarrow> collector \<times> world" where
  "handle_download_commands now r s =
     (case r of
        Failed \<Rightarrow> s
      | NotOk \<Rightarrow> s
      | Batch updates \<Rightarrow> snd (for_updates (handle_download_commands_body now) updates s))"

subsection \<open>Sequences of polls\<close>

text \<open>
  The four functions that call \<open>getUpdates\<close> with \<open>self.update_offset\<close>. One poll
  is one such call with the loop over its batch; \<open>poll_body\<close> is the loop body of the
  function named, on the common state (collector, world, \<open>roteiro_partes\<close>), with
  the result of a \<open>Stop\<close> left out.
\<close>

datatype poll_op = WaitForMessage | CheckForCancel | CollectScript | HandleDownloadCommands

definition forget :: "'r flow \<Rightarrow> unit flow" where
  "forget f = (case f of Continue \<Rightarrow> Continue | Stop r \<Rightarrow> Stop ())"

definition poll_body ::
  "int \<Rightarrow> (string \<Rightarrow> file_fetch) \<Rightarrow> poll_op \<Rightarrow> update \<Rightarrow> collector \<times> world \<times> string list
     \<Rightarrow> unit flow \<times> collector \<times> world \<times> string list" where
  "poll_body now fetch op u s =
     (case s of (c, w, partes) \<Rightarrow>
       (case op of
          WaitForMessage \<Rightarrow>
            (case wait_for_message_body now u (c, w) of (f, c1, w1) \<Rightarrow> (forget f, c1, w1, partes))
        | CheckForCancel \<Rightarrow>
            (case check_for_cancel_body now u (c, w) of (f, c1, w1) \<Rightarrow> (forget f, c1, w1, partes))
        | CollectScript \<Rightarrow>
            (case collect_script_body fetch u s of (f, s1) \<Rightarrow> (forget f, s1))
        | HandleDownloadCommands \<Rightarrow>
            (case handle_download_commands_body now u (c, w) of
               (f, c1, w1) \<Rightarrow> (forget f, c1, w1, partes))))"

definition poll ::
  "int \<Rightarrow> (string \<Rightarrow> file_fetch) \<Rightarrow> poll_op \<Rightarrow> response \<Rightarrow> collector \<times> world \<times> string list
     \<Rightarrow> collector \<times> world \<times> string list" where
  "poll now fetch op r s =
     (case r of
        Failed \<Rightarrow> s
      | NotOk \<Rightarrow> s
      | Batch updates \<Rightarrow> snd (for_updates (poll_body now fetch op) updates s))"

text \<open>The updates one poll evaluates.\<close>

definition poll_evaluated ::
  "int \<Rightarrow> (string \<Rightarrow> file_fetch) \<Rightarrow> poll_op \<Rightarrow> response \<Rightarrow> collector \<times> world \<times> string list
     \<Rightarrow> update list" where
  "poll_evaluated now fetch op r s =
     (case r of
        Failed \<Rightarrow> []
      | NotOk \<Rightarrow> []
      | Batch updates \<Rightarrow> evaluated (poll_body now fetch op) updates s)"

text \<open>
  A sequence of polls, each with the answer it gets: the cursor after each poll, and
  all the updates evaluated, in order.
\<close>

fun cursor_log ::
  "int \<Rightarrow> (string \<Rightarrow> file_fetch) \<Rightarrow> (poll_op \<times> response) list
     \<Rightarrow> collector \<times> world \<times> string list \<Rightarrow> int list" where
  "cursor_log now fetch [] s = []"
| "cursor_log now fetch ((op, r) # ps) s =
     update_offset (fst (poll now fetch op r s)) # cursor_log now fetch ps (poll now fetch op r s)"

fun evaluated_log ::
  "int \<Rightarrow> (string \<Rightarrow> file_fetch) \<Rightarrow> (poll_op \<times> response) list
     \<Rightarrow> collector \<times> world \<times> string list \<Rightarrow> update list" where
  "evaluated_log now fetch [] s = []"
| "evaluated_log now fetch ((op, r) # ps) s =
     poll_evaluated now fetch op r s @ evaluated_log now fetch ps (poll now fetch op r s)"

text \<open>
  What the update feed promises for a request with offset \<open>off\<close>: the updates of the
  batch have increasing ids, none below \<open>off\<close>. \<open>feed_ok\<close> says that every answer
  of a sequence keeps the promise for the offset its request carries.
\<close>

definition batch_ok :: "int \<Rightarrow> response \<Rightarrow> bool" where
  "batch_ok off r =
     (case r of
        Failed \<Rightarrow> True
      | NotOk \<Rightarrow> True
      | Batch updates \<Rightarrow>
          sorted_wrt (<) (map update_id updates) \<and> list_all (\<lambda>u. off \<le> update_id u) updates)"

fun feed_ok ::
  "int \<Rightarrow> (string \<Rightarrow> file_fetch) \<Rightarrow> (poll_op \<times> response) list
     \<Rightarrow> collector \<times> world \<times> string list \<Rightarrow> bool" where
  "feed_ok now fetch [] s = True"
| "feed_ok now fetch ((op, r) # ps) s =
     (batch_ok (update_offset (fst s)) r \<and> feed_ok now fetch ps (poll now fetch op r s))"

section \<open>The conversation\<close>

text \<open>
  In \<open>workflow_manager.py\<close> the class \<open>TelegramCollector\<close> ends after
  \<open>_get_last_update_id\<close>: the functions from \<open>send_message\<close> to
  \<open>collect_video_info\<close> are indented under the module-level function \<open>show_help\<close>
  and are local to it. Their bodies are modelled as they are written, a call
  \<open>self.f(...)\<close> in a body being a call of the function \<open>f\<close> of this file.
  What \<open>main\<close> finds when it looks a name up on a collector is modelled in the
  section on \<open>main\<close>.
\<close>

text \<open>\<open>[tag.strip() for tag in tags_text.split(',')]\<close>.\<close>

definition parse_tags :: "string \<Rightarrow> string list" where
  "parse_tags tags_text = map strip (split_on CHR '','' tags_text)"

text \<open>
  The statistics of the script and the message that reports them. \<open>tempo_estimado\<close>
  is a Python float; it is kept here as the exact quotient.
\<close>

definition palavra_count :: "string \<Rightarrow> nat" where
  "palavra_count roteiro = length (split_words roteiro)"

definition tempo_estimado :: "string \<Rightarrow> rat" where
  "tempo_estimado roteiro = of_nat (palavra_count roteiro) / 150"

definition preview :: "string \<Rightarrow> string" where
  "preview roteiro = (if 200 < length roteiro then take 200 roteiro @ ''...'' else roteiro)"

definition script_summary :: "string \<Rightarrow> notice" where
  "script_summary roteiro =
     ScriptReceived (palavra_count roteiro) (tempo_estimado roteiro)
       (py_int (tempo_estimado roteiro * 2)) (preview roteiro)"

text \<open>Decimal digits of a natural number, for \<open>f"video_{int(time.time())}"\<close>.\<close>

fun str_nat :: "nat \<Rightarrow> string" where
  "str_nat n =
     (if n < 10 then [''0123456789'' ! n]
      else str_nat (n div 10) @ [''0123456789'' ! (n mod 10)])"

declare str_nat.simps [simp del]

text \<open>
  What the world gives to one conversation: the turns of the four waits, the document
  store, \<open>datetime.now()\<close> and \<open>int(time.time())\<close>.
\<close>

record session_env =
  title_rounds :: "round list"
  description_rounds :: "round list"
  tags_rounds :: "round list"
  script_rounds :: "round list"
  fetch_file :: "string \<Rightarrow> file_fetch"
  time_now :: int
  time_epoch :: nat

text \<open>
  \<open>collect_video_info\<close>, one definition per question, last question first. The
  result is \<open>Inr (Some video_data)\<close>, \<open>Inr None\<close> for each \<open>return None\<close> (the
  handler of \<open>WorkflowCancelled\<close> included), or \<open>Inl\<close> an exception that is not
  caught here.
\<close>

definition build_video_data ::
  "session_env \<Rightarrow> string \<Rightarrow> string \<Rightarrow> string list \<Rightarrow> string \<Rightarrow> video_data" where
  "build_video_data env titulo descricao tags roteiro =
     \<lparr>video_id = ''video_'' @ str_nat (time_epoch env),
      vd_timestamp = time_now env,
      vd_title = titulo,
      vd_description = descricao,
      vd_tags = tags,
      vd_script = roteiro,
      vd_status = ''collected'',
      word_count = palavra_count roteiro,
      estimated_duration = tempo_estimado roteiro\<rparr>"

definition collect_script_step ::
  "session_env \<Rightarrow> string \<Rightarrow> string \<Rightarrow> string list \<Rightarrow> collector \<times> world
     \<Rightarrow> ((exn + video_data option) \<times> collector \<times> world) option" where
  "collect_script_step env titulo descricao tags s =
     (case collect_script_multipart (fetch_file env) 900 (script_rounds env) s of
        None \<Rightarrow> None
      | Some (Inl WorkflowCancelled, s1) \<Rightarrow> Some (Inr None, s1)
      | Some (Inl Exception, s1) \<Rightarrow> Some (Inl Exception, s1)
      | Some (Inr None, c1, w1) \<Rightarrow> Some (Inr None, c1, send_message ScriptNotReceived w1)
      | Some (Inr (Some roteiro), c1, w1) \<Rightarrow>
          (if roteiro = [] then Some (Inr None, c1, send_message ScriptNotReceived w1)
           else (let w2 = send_message (script_summary roteiro) w1;
                     video_data = build_video_data env titulo descricao tags roteiro
                 in Some (Inr (Some video_data), c1,
                          w2\<lparr>production_files := production_files w2 @ [video_data]\<rparr>))))"

definition collect_tags_step ::
  "session_env \<Rightarrow> string \<Rightarrow> string \<Rightarrow> collector \<times> world
     \<Rightarrow> ((exn + video_data option) \<times> collector \<times> world) option" where
  "collect_tags_step env titulo descricao s =
     (case s of (c, w) \<Rightarrow>
       (case wait_for_message (time_now env) 600 (tags_rounds env) (c, send_message AskTags w) of
          None \<Rightarrow> None
        | Some (Inl WorkflowCancelled, s1) \<Rightarrow> Some (Inr None, s1)
        | Some (Inl Exception, s1) \<Rightarrow> Some (Inl Exception, s1)
        | Some (Inr None, c1, w1) \<Rightarrow> Some (Inr None, c1, send_message TimeExpired w1)
        | Some (Inr (Some tags_text), c1, w1) \<Rightarrow>
            (let tags = parse_tags tags_text
             in collect_script_step env titulo descricao tags
                  (c1, send_message (TagsReceived (length tags)) w1))))"

definition collect_description_step ::
  "session_env \<Rightarrow> string \<Rightarrow> collector \<times> world
     \<Rightarrow> ((exn + video_data option) \<times> collector \<times> world) option" where
  "collect_description_step env titulo s =
     (case s of (c, w) \<Rightarrow>
       (case wait_for_message (time_now env) 600 (description_rounds env)
               (c, send_message AskDescription w) of
          None \<Rightarrow> None
        | Some (Inl WorkflowCancelled, s1) \<Rightarrow> Some (Inr None, s1)
        | Some (Inl Exception, s1) \<Rightarrow> Some (Inl Exception, s1)
        | Some (Inr None, c1, w1) \<Rightarrow> Some (Inr None, c1, send_message TimeExpired w1)
        | Some (Inr (Some descricao), c1, w1) \<Rightarrow>
            collect_tags_step env titulo descricao
              (c1, send_message (DescriptionReceived (take 100 descricao)) w1)))"

definition collect_video_info ::
  "session_env \<Rightarrow> collector \<times> world
     \<Rightarrow> ((exn + video_data option) \<times> collector \<times> world) option" where
  "collect_video_info env s =
     (case s of (c, w) \<Rightarrow>
       (case wait_for_message (time_now env) 600 (title_rounds env)
               (c, send_message AskTitle (send_message Welcome (w\<lparr>cancel_flag := None\<rparr>))) of
          None \<Rightarrow> None
        | Some (Inl WorkflowCancelled, s1) \<Rightarrow> Some (Inr None, s1)
        | Some (Inl Exception, s1) \<Rightarrow> Some (Inl Exception, s1)
        | Some (Inr None, c1, w1) \<Rightarrow> Some (Inr None, c1, send_message TimeExpired w1)
        | Some (Inr (Some titulo), c1, w1) \<Rightarrow>
            collect_description_step env titulo
              (c1, send_message (TitleReceived titulo) w1)))"

section \<open>main\<close>

text \<open>
  The attributes of a \<open>TelegramCollector\<close> object: the fields that \<open>__init__\<close>
  sets and the functions defined in the body of the class. Looking up any other name on
  the object raises \<open>AttributeError\<close>, which is an \<open>Exception\<close>.
\<close>

definition TelegramCollector_attributes :: "string list" where
  "TelegramCollector_attributes =
     [''base_url'', ''chat_id'', ''update_offset'', ''cancelled'',
      ''__init__'', ''_get_last_update_id'']"

definition has_attribute :: "string \<Rightarrow> bool" where
  "has_attribute name = (name \<in> set TelegramCollector_attributes)"

text \<open>
  The inner \<open>try\<close> of the handler of \<open>Exception\<close> in \<open>main\<close>: a new collector
  and \<open>collector.send_message(...)\<close>, any exception of which is passed over.
\<close>

definition report_error :: "world \<Rightarrow> world" where
  "report_error w = (if has_attribute ''send_message'' then send_message ProductionError w else w)"

text \<open>
  \<open>main\<close> returns the exit status that \<open>sys.exit\<close> passes on. The two environment
  variables may be unset; \<open>create_video.run_production\<close> is not part of these
  sources and is a parameter: it returns a truth value or raises. The call
  \<open>collector.collect_video_info()\<close> first looks the name up on the collector.
\<close>

definition main ::
  "string option \<Rightarrow> string option \<Rightarrow> response \<Rightarrow> session_env \<Rightarrow> (video_data \<Rightarrow> exn + bool)
     \<Rightarrow> world \<Rightarrow> (int \<times> world) option" where
  "main TELEGRAM_BOT_TOKEN TELEGRAM_CHAT_ID first_response env run_production w =
     (if TELEGRAM_BOT_TOKEN = None \<or> TELEGRAM_BOT_TOKEN = Some [] then Some (1, w)
      else (case TELEGRAM_CHAT_ID of
          None \<Rightarrow> Some (1, w)
        | Some cid \<Rightarrow>
           (if cid = [] then Some (1, w)
            else if \<not> has_attribute ''collect_video_info'' then Some (1, report_error w)
            else (case collect_video_info env (TelegramCollector cid first_response, w) of
                None \<Rightarrow> None
              | Some (Inl WorkflowCancelled, c1, w1) \<Rightarrow> Some (2, w1)
              | Some (Inl Exception, c1, w1) \<Rightarrow> Some (1, report_error w1)
              | Some (Inr None, c1, w1) \<Rightarrow> Some (1, w1)
              | Some (Inr (Some video_data), c1, w1) \<Rightarrow>
                  (case run_production video_data of
                     Inr success \<Rightarrow> Some (if success then 0 else 1, w1)
                   | Inl WorkflowCancelled \<Rightarrow> Some (2, w1)
                   | Inl Exception \<Rightarrow> Some (1, report_error w1))))))"

section \<open>Example data\<close>

definition example_entry :: "int \<Rightarrow> bool option \<Rightarrow> string \<Rightarrow> entry" where
  "example_entry t c p =
     \<lparr>title = ''D-Day'', size_mb = 12, download_url = ''https://example.org/v'',
      timestamp = t, confirmed = c, confirmed_at = None, video_path = p\<rparr>"

text \<open>
  Three entries seen at time \<open>86400000000\<close> (24 hours after time 0): \<open>a\<close> is exactly
  24 hours old, \<open>b\<close> one microsecond older, \<open>c\<close> is old and confirmed.
\<close>

definition example_world :: world where
  "example_world =
     \<lparr>pending_file = Some [(''a'', example_entry 0 (Some False) ''a.mp4''),
                           (''b'', example_entry (- 1) None ''b.mp4''),
                           (''c'', example_entry (- 5) (Some True) ''c.mp4'')],
      files = {''a.mp4'', ''c.mp4''}, locked = {}, cancel_flag = None,
      production_files = [], sent = []\<rparr>"

text \<open>
  A conversation with the operator of chat \<open>42\<close>: text messages, an uploaded
  document, and turns of a polling loop that read the clock at \<open>t\<close> seconds.
\<close>

definition text_update :: "int \<Rightarrow> string \<Rightarrow> update" where
  "text_update i t =
     \<lparr>update_id = i, payload = Message \<lparr>chat = ''42'', msg_text = t, msg_document = None\<rparr>\<rparr>"

definition document_update :: "int \<Rightarrow> string \<Rightarrow> string \<Rightarrow> update" where
  "document_update i name fid =
     \<lparr>update_id = i,
      payload = Message \<lparr>chat = ''42'', msg_text = [],
                         msg_document = Some \<lparr>file_name = name, file_id = fid\<rparr>\<rparr>\<rparr>"

definition turn :: "rat \<Rightarrow> response \<Rightarrow> round" where
  "turn t r = \<lparr>clock_check = t, clock_body = t, cancel_response = Batch [], poll_response = r\<rparr>"

definition example_collector :: collector where
  "example_collector = \<lparr>chat_id = ''42'', update_offset = 100, cancelled = False\<rparr>"

definition empty_world :: world where
  "empty_world =
     \<lparr>pending_file = None, files = {}, locked = {}, cancel_flag = None,
      production_files = [], sent = []\<rparr>"

text \<open>The document \<open>f1\<close> holds two lines; no other document can be fetched.\<close>

definition example_fetch :: "string \<Rightarrow> file_fetch" where
  "example_fetch fid =
     (if fid = ''f1'' then FetchContent (''Part one.'' @ newline @ ''Part two.'') else FetchNotOk)"

text \<open>
  The end-to-end scenario: title, description, tags, one script fragment and the finish
  word, each in a turn of its own.
\<close>

definition example_env :: session_env where
  "example_env =
     \<lparr>title_rounds = [turn 2 (Batch [text_update 100 ''D-Day''])],
      description_rounds = [turn 4 (Batch [text_update 101 ''desc''])],
      tags_rounds = [turn 5 (Batch [text_update 102 ''WWII, History''])],
      script_rounds = [turn 3 (Batch [text_update 103 ''Hello world'']),
                       turn 9 (Batch [text_update 104 ''pronto''])],
      fetch_file = example_fetch, time_now = 1000000, time_epoch = 1737123456\<rparr>"

section \<open>Properties of the pending-downloads store\<close>

lemma del_all_filter: "del_all ks m = filter (\<lambda>kv. fst kv \<notin> set ks) m"
proof (induction ks arbitrary: m)
  case Nil
  then show ?case by simp
next
  case (Cons k ks)
  have "AList.delete k m = filter (\<lambda>kv. fst kv \<noteq> k) m"
    by (induction m) (auto simp: AList.delete_eq)
  then show ?case using Cons by (simp add: conj_commute)
qed

lemma DownloadManager_expired_scan_fst:
  "fst (DownloadManager_expired_scan cutoff items to_remove n w) =
     to_remove @ map fst (filter (\<lambda>kv. \<not> is_confirmed (snd kv) \<and> timestamp (snd kv) < cutoff) items)"
  by (induction cutoff items to_remove n w rule: DownloadManager_expired_scan.induct) simp_all

lemma expired_scan_fst:
  "fst (expired_scan cutoff items to_remove n r w) =
     to_remove @ map fst (filter (\<lambda>kv. \<not> is_confirmed (snd kv) \<and> timestamp (snd kv) < cutoff) items)"
  by (induction cutoff items to_remove n r w rule: expired_scan.induct)
     (simp_all add: split_beta)

text \<open>With distinct keys, deleting the keys of the selected entries deletes exactly those entries.\<close>

lemma filter_keys_distinct:
  assumes "distinct (map fst m)"
  shows "filter (\<lambda>kv. fst kv \<notin> fst ` {x \<in> set m. P x}) m = filter (\<lambda>kv. \<not> P kv) m"
proof (rule filter_cong[OF refl])
  fix kv assume kv: "kv \<in> set m"
  have "fst kv \<in> fst ` {x \<in> set m. P x} \<longleftrightarrow> P kv"
  proof
    assume "fst kv \<in> fst ` {x \<in> set m. P x}"
    then obtain x where x: "x \<in> set m" "P x" "fst x = fst kv" by auto
    with assms kv have "x = kv" by (metis eq_key_imp_eq_value prod.collapse)
    with x show "P kv" by simp
  next
    assume "P kv" with kv show "fst kv \<in> fst ` {x \<in> set m. P x}" by auto
  qed
  then show "(fst kv \<notin> fst ` {x \<in> set m. P x}) = (\<not> P kv)" by simp
qed

lemma map_of_filter_distinct:
  assumes "distinct (map fst m)" "(k, v) \<in> set m"
  shows "map_of (filter Q m) k = (if Q (k, v) then Some v else None)"
proof (cases "Q (k, v)")
  case True
  have "distinct (map fst (filter Q m))" using assms(1) by (simp add: distinct_map_filter)
  moreover have "(k, v) \<in> set (filter Q m)" using True assms(2) by simp
  ultimately show ?thesis using True by simp
next
  case False
  have "k \<notin> fst ` set (filter Q m)"
  proof
    assume "k \<in> fst ` set (filter Q m)"
    then obtain v' where v': "(k, v') \<in> set m" "Q (k, v')" by auto
    with assms have "v' = v" by (meson eq_key_imp_eq_value)
    with v' False show False by simp
  qed
  then show ?thesis using False by (simp add: map_of_eq_None_iff)
qed

lemma DownloadManager_cleanup_expired_pending:
  assumes "distinct (map fst (DownloadManager_load_pending w))"
  shows "DownloadManager_load_pending (DownloadManager_cleanup_expired now hours w) =
     filter (\<lambda>kv. \<not> (\<not> is_confirmed (snd kv) \<and> timestamp (snd kv) < now - timedelta_hours hours))
       (DownloadManager_load_pending w)"
proof -
  let ?m = "DownloadManager_load_pending w"
  let ?P = "\<lambda>kv. \<not> is_confirmed (snd kv) \<and> timestamp (snd kv) < now - timedelta_hours hours"
  have "DownloadManager_load_pending (DownloadManager_cleanup_expired now hours w) =
      del_all (fst (DownloadManager_expired_scan (now - timedelta_hours hours) ?m [] 0 w)) ?m"
    by (simp add: DownloadManager_cleanup_expired_def Let_def split_beta send_message_def
        DownloadManager_save_pending_def DownloadManager_load_pending_def)
  also have "\<dots> = filter (\<lambda>kv. fst kv \<notin> fst ` {x \<in> set ?m. ?P x}) ?m"
    by (simp add: DownloadManager_expired_scan_fst del_all_filter)
  also have "\<dots> = filter (\<lambda>kv. \<not> ?P kv) ?m"
    using assms by (rule filter_keys_distinct)
  finally show ?thesis .
qed

lemma cleanup_expired_downloads_pending:
  assumes "distinct (map fst m)" "pending_file w = Some m"
  shows "pending_file (cleanup_expired_downloads now hours w) =
     Some (filter (\<lambda>kv. \<not> (\<not> is_confirmed (snd kv) \<and> timestamp (snd kv) < now - timedelta_hours hours)) m)"
proof -
  let ?P = "\<lambda>kv. \<not> is_confirmed (snd kv) \<and> timestamp (snd kv) < now - timedelta_hours hours"
  have "pending_file (cleanup_expired_downloads now hours w) =
      Some (del_all (fst (expired_scan (now - timedelta_hours hours) m [] 0 0 w)) m)"
    using assms(2)
    by (simp add: cleanup_expired_downloads_def Let_def split_beta send_message_def)
  also have "\<dots> = Some (filter (\<lambda>kv. fst kv \<notin> fst ` {x \<in> set m. ?P x}) m)"
    by (simp add: expired_scan_fst del_all_filter)
  also have "\<dots> = Some (filter (\<lambda>kv. \<not> ?P kv) m)"
    using assms(1) by (simp add: filter_keys_distinct)
  finally show ?thesis .
qed

text \<open>
  C1. Expiry boundary. Take any stored mapping (its keys distinct, as those of a JSON
  object are) and any entry \<open>info\<close> stored under \<open>vid\<close>. After
  \<open>cleanup_expired(hours)\<close> run at time \<open>now\<close>, in both source files, the entry is
  gone exactly when it is not confirmed and \<open>now - timestamp > hours\<close> (strictly);
  otherwise it is still stored, unchanged. So an unconfirmed entry aged exactly
  \<open>hours\<close> is kept, and a confirmed entry is never removed. The claim is the case
  \<open>hours = 24\<close>.
\<close>

theorem cleanup_expired_boundary:
  assumes "distinct (map fst (DownloadManager_load_pending w))"
    and "(vid, info) \<in> set (DownloadManager_load_pending w)"
  shows "map_of (DownloadManager_load_pending (DownloadManager_cleanup_expired now hours w)) vid =
           (if \<not> is_confirmed info \<and> now - timestamp info > timedelta_hours hours
            then None else Some info)
       \<and> map_of (DownloadManager_load_pending (cleanup_expired_downloads now hours w)) vid =
           (if \<not> is_confirmed info \<and> now - timestamp info > timedelta_hours hours
            then None else Some info)"
proof -
  let ?m = "DownloadManager_load_pending w"
  let ?Q = "\<lambda>kv. \<not> (\<not> is_confirmed (snd kv) \<and> timestamp (snd kv) < now - timedelta_hours hours)"
  have cut: "(timestamp info < now - timedelta_hours hours) = (now - timestamp info > timedelta_hours hours)"
    by arith
  have a: "map_of (filter ?Q ?m) vid = (if ?Q (vid, info) then Some info else None)"
    using assms by (rule map_of_filter_distinct)
  have m: "pending_file w = Some ?m"
    using assms(2) by (cases "pending_file w") (simp_all add: DownloadManager_load_pending_def)
  have b: "DownloadManager_load_pending (cleanup_expired_downloads now hours w) = filter ?Q ?m"
    using cleanup_expired_downloads_pending[OF assms(1) m]
    by (simp add: DownloadManager_load_pending_def)
  show ?thesis
    using a cut by (simp add: DownloadManager_cleanup_expired_pending[OF assms(1)] b)
qed

text \<open>
  On the example: \<open>a\<close>, exactly 24 hours old, is kept by both functions; \<open>b\<close>, one
  microsecond older, is removed by both.
\<close>

theorem cleanup_expired_boundary_witness:
  "map_of (DownloadManager_load_pending
       (DownloadManager_cleanup_expired 86400000000 24 example_world)) ''a''
     = Some (example_entry 0 (Some False) ''a.mp4'')
   \<and> map_of (DownloadManager_load_pending
       (cleanup_expired_downloads 86400000000 24 example_world)) ''a''
     = Some (example_entry 0 (Some False) ''a.mp4'')
   \<and> map_of (DownloadManager_load_pending
       (DownloadManager_cleanup_expired 86400000000 24 example_world)) ''b'' = None
   \<and> map_of (DownloadManager_load_pending
       (cleanup_expired_downloads 86400000000 24 example_world)) ''b'' = None"
  using cleanup_expired_boundary
          [of example_world "''a''" "example_entry 0 (Some False) ''a.mp4''" 86400000000 24]
        cleanup_expired_boundary
          [of example_world "''b''" "example_entry (- 1) None ''b.mp4''" 86400000000 24]
  by (simp add: example_world_def example_entry_def DownloadManager_load_pending_def
      is_confirmed_def timedelta_hours_def)

lemma DownloadManager_confirmed_scan_fst:
  "fst (DownloadManager_confirmed_scan items to_remove n w) =
     to_remove @ map fst (filter (\<lambda>kv. is_confirmed (snd kv)) items)"
  by (induction items to_remove n w rule: DownloadManager_confirmed_scan.induct) simp_all

lemma confirmed_scan_fst:
  "fst (confirmed_scan items to_remove n r w) =
     to_remove @ map fst (filter (\<lambda>kv. is_confirmed (snd kv)) items)"
  by (induction items to_remove n r w rule: confirmed_scan.induct) (simp_all add: split_beta)

lemma DownloadManager_confirmed_scan_none:
  "list_all (\<lambda>kv. \<not> is_confirmed (snd kv)) items \<Longrightarrow>
     DownloadManager_confirmed_scan items to_remove n w = (to_remove, n, w)"
  by (induction items to_remove n w rule: DownloadManager_confirmed_scan.induct) simp_all

lemma confirmed_scan_none:
  "list_all (\<lambda>kv. \<not> is_confirmed (snd kv)) items \<Longrightarrow>
     confirmed_scan items to_remove n r w = (to_remove, n, r, w)"
  by (induction items to_remove n r w rule: confirmed_scan.induct) simp_all

lemma del_confirmed_keys:
  "list_all (\<lambda>kv. \<not> is_confirmed (snd kv))
     (del_all (map fst (filter (\<lambda>kv. is_confirmed (snd kv)) m)) m)"
  by (force simp: del_all_filter list_all_iff)

lemma DownloadManager_cleanup_confirmed_pending:
  "pending_file (DownloadManager_cleanup_confirmed w) =
     Some (del_all (map fst (filter (\<lambda>kv. is_confirmed (snd kv)) (DownloadManager_load_pending w)))
       (DownloadManager_load_pending w))"
  by (simp add: DownloadManager_cleanup_confirmed_def Let_def split_beta send_message_def
      DownloadManager_save_pending_def DownloadManager_confirmed_scan_fst)

lemma cleanup_confirmed_downloads_pending:
  "pending_file (cleanup_confirmed_downloads w) =
     (case pending_file w of None \<Rightarrow> None
      | Some m \<Rightarrow> Some (del_all (map fst (filter (\<lambda>kv. is_confirmed (snd kv)) m)) m))"
  by (simp add: cleanup_confirmed_downloads_def Let_def split_beta send_message_def
      confirmed_scan_fst split: option.splits)

lemma pending_file_same: "pending_file w = Some m \<Longrightarrow> w\<lparr>pending_file := Some m\<rparr> = w"
  by (cases w) simp

lemma DownloadManager_cleanup_confirmed_clean:
  assumes "pending_file w = Some m" "list_all (\<lambda>kv. \<not> is_confirmed (snd kv)) m"
  shows "DownloadManager_cleanup_confirmed w = send_message (DM_CleanupDone 0 (length m)) w"
  using assms
  by (simp add: DownloadManager_cleanup_confirmed_def DownloadManager_load_pending_def
      DownloadManager_confirmed_scan_none DownloadManager_save_pending_def pending_file_same)

lemma cleanup_confirmed_downloads_clean:
  assumes "pending_file w = Some m" "list_all (\<lambda>kv. \<not> is_confirmed (snd kv)) m"
  shows "cleanup_confirmed_downloads w = send_message (CleanupDone 0 0 (length m)) w"
  using assms
  by (simp add: cleanup_confirmed_downloads_def confirmed_scan_none pending_file_same)

text \<open>
  C6. \<open>cleanup_confirmed\<close> is idempotent on the store. Whatever the state, a second
  run right after the first reports zero removed entries (and zero deleted files), and
  changes nothing but the list of sent messages: the stored mapping after the second run
  is the one after the first. This holds for \<open>DownloadManager.cleanup_confirmed\<close> and
  for \<open>cleanup_confirmed_downloads\<close>; the latter, when the store file does not exist,
  reports that there is nothing to clean, both times.
\<close>

theorem cleanup_confirmed_idempotent:
  "DownloadManager_cleanup_confirmed (DownloadManager_cleanup_confirmed w) =
     send_message
       (DM_CleanupDone 0 (length (DownloadManager_load_pending (DownloadManager_cleanup_confirmed w))))
       (DownloadManager_cleanup_confirmed w)
   \<and> pending_file (DownloadManager_cleanup_confirmed (DownloadManager_cleanup_confirmed w)) =
       pending_file (DownloadManager_cleanup_confirmed w)
   \<and> cleanup_confirmed_downloads (cleanup_confirmed_downloads w) =
     send_message
       (case pending_file (cleanup_confirmed_downloads w) of
          None \<Rightarrow> NothingToClean
        | Some m \<Rightarrow> CleanupDone 0 0 (length m))
       (cleanup_confirmed_downloads w)
   \<and> pending_file (cleanup_confirmed_downloads (cleanup_confirmed_downloads w)) =
       pending_file (cleanup_confirmed_downloads w)"
proof -
  let ?w1 = "DownloadManager_cleanup_confirmed w"
  let ?v1 = "cleanup_confirmed_downloads w"
  obtain m1 where m1: "pending_file ?w1 = Some m1" "list_all (\<lambda>kv. \<not> is_confirmed (snd kv)) m1"
    using DownloadManager_cleanup_confirmed_pending del_confirmed_keys by blast
  have a: "DownloadManager_cleanup_confirmed ?w1 =
      send_message (DM_CleanupDone 0 (length (DownloadManager_load_pending ?w1))) ?w1"
    using DownloadManager_cleanup_confirmed_clean[OF m1] m1(1)
    by (simp add: DownloadManager_load_pending_def)
  have b: "cleanup_confirmed_downloads ?v1 =
      send_message (case pending_file ?v1 of None \<Rightarrow> NothingToClean
                    | Some m \<Rightarrow> CleanupDone 0 0 (length m)) ?v1"
  proof (cases "pending_file ?v1")
    case None
    then show ?thesis by (simp add: cleanup_confirmed_downloads_def[of ?v1])
  next
    case (Some m)
    then have "list_all (\<lambda>kv. \<not> is_confirmed (snd kv)) m"
      using del_confirmed_keys by (auto simp: cleanup_confirmed_downloads_pending split: option.splits)
    from cleanup_confirmed_downloads_clean[OF Some this] Some show ?thesis by simp
  qed
  show ?thesis
    by (simp only: a b) (simp add: send_message_def)
qed

lemma delete_key_absent: "vid \<notin> fst ` set (AList.delete vid m)"
  by (auto simp: AList.delete_eq)

lemma DownloadManager_confirm_download_absent:
  "vid \<notin> fst ` set (DownloadManager_load_pending w) \<Longrightarrow>
     DownloadManager_confirm_download now vid w = (False, send_message (DM_InvalidId vid) w)"
  using map_of_eq_None_iff[of "DownloadManager_load_pending w" vid]
  by (simp add: DownloadManager_confirm_download_def)

lemma DownloadManager_confirm_download_present:
  assumes "vid \<in> fst ` set (DownloadManager_load_pending w)"
  shows "fst (DownloadManager_confirm_download now vid w)
     \<and> pending_file (snd (DownloadManager_confirm_download now vid w)) =
         Some (AList.delete vid (DownloadManager_load_pending w))"
proof -
  from assms obtain info0 where "map_of (DownloadManager_load_pending w) vid = Some info0"
    by (metis map_of_eq_None_iff not_Some_eq)
  then show ?thesis
    by (simp add: DownloadManager_confirm_download_def Let_def DownloadManager_save_pending_def
        send_message_def)
qed

lemma confirm_download_absent:
  "pending_file w = Some m \<Longrightarrow> vid \<notin> fst ` set m \<Longrightarrow>
     confirm_download now vid w = send_message (InvalidId vid) w"
  using map_of_eq_None_iff[of m vid]
  by (simp add: confirm_download_def)

lemma confirm_download_present:
  assumes "pending_file w = Some m" "vid \<in> fst ` set m"
  shows "pending_file (confirm_download now vid w) = Some (AList.delete vid m)"
proof -
  from assms obtain info0 where "map_of m vid = Some info0"
    by (metis map_of_eq_None_iff not_Some_eq)
  then show ?thesis using assms(1)
    by (simp add: confirm_download_def Let_def split_beta send_message_def remove_if_exists_def)
qed

text \<open>
  With no store file at all, \<open>confirm_download\<close> of the workflow manager reports
  that nothing is pending and changes nothing else.
\<close>

lemma confirm_download_no_store_file:
  "pending_file w = None \<Longrightarrow> confirm_download now vid w = send_message NoPendingDownload w"
  by (simp add: confirm_download_def)

text \<open>
  C5. Confirming a download. For \<open>DownloadManager.confirm_download\<close> in any state,
  and for \<open>confirm_download\<close> of the workflow manager in any state whose store file
  holds a mapping \<open>m\<close>: when \<open>vid\<close> is not a key, the call reports the
  invalid-id (not found) outcome and the stored mapping is unchanged; when \<open>vid\<close> is
  a key, the mapping stored afterwards no longer has it, so the listing sent by
  \<open>list_pending_downloads\<close> is built from a mapping without it, and a second
  confirmation of \<open>vid\<close> reports the not-found outcome.
\<close>

theorem confirm_download_not_found:
  "(vid \<notin> fst ` set (DownloadManager_load_pending w) \<longrightarrow>
      DownloadManager_confirm_download now vid w = (False, send_message (DM_InvalidId vid) w)
      \<and> pending_file (snd (DownloadManager_confirm_download now vid w)) = pending_file w)
   \<and> (vid \<in> fst ` set (DownloadManager_load_pending w) \<longrightarrow>
      fst (DownloadManager_confirm_download now vid w)
      \<and> vid \<notin> fst ` set (DownloadManager_load_pending
                (snd (DownloadManager_confirm_download now vid w)))
      \<and> DownloadManager_confirm_download now' vid (snd (DownloadManager_confirm_download now vid w)) =
          (False, send_message (DM_InvalidId vid) (snd (DownloadManager_confirm_download now vid w))))
   \<and> (pending_file w = Some m \<and> vid \<notin> fst ` set m \<longrightarrow>
      confirm_download now vid w = send_message (InvalidId vid) w
      \<and> pending_file (confirm_download now vid w) = Some m)
   \<and> (pending_file w = Some m \<and> vid \<in> fst ` set m \<longrightarrow>
      pending_file (confirm_download now vid w) = Some (AList.delete vid m)
      \<and> vid \<notin> fst ` set (AList.delete vid m)
      \<and> list_pending_downloads now' (confirm_download now vid w) =
          send_message
            (if AList.delete vid m = [] then NothingPending
             else PendingList now' (AList.delete vid m))
            (confirm_download now vid w)
      \<and> confirm_download now' vid (confirm_download now vid w) =
          send_message (InvalidId vid) (confirm_download now vid w))"
proof (intro conjI impI)
  assume a: "vid \<notin> fst ` set (DownloadManager_load_pending w)"
  show "DownloadManager_confirm_download now vid w = (False, send_message (DM_InvalidId vid) w)"
    using a by (rule DownloadManager_confirm_download_absent)
  then show "pending_file (snd (DownloadManager_confirm_download now vid w)) = pending_file w"
    by (simp add: send_message_def)
next
  assume p: "vid \<in> fst ` set (DownloadManager_load_pending w)"
  let ?w1 = "snd (DownloadManager_confirm_download now vid w)"
  note r = DownloadManager_confirm_download_present[OF p, of now]
  from r show "fst (DownloadManager_confirm_download now vid w)" by simp
  from r have l: "DownloadManager_load_pending ?w1 = AList.delete vid (DownloadManager_load_pending w)"
    by (simp add: DownloadManager_load_pending_def)
  then show n: "vid \<notin> fst ` set (DownloadManager_load_pending ?w1)"
    by (simp only: delete_key_absent not_False_eq_True)
  show "DownloadManager_confirm_download now' vid ?w1 = (False, send_message (DM_InvalidId vid) ?w1)"
    using n by (rule DownloadManager_confirm_download_absent)
next
  assume a: "pending_file w = Some m \<and> vid \<notin> fst ` set m"
  then show "confirm_download now vid w = send_message (InvalidId vid) w"
    by (simp add: confirm_download_absent)
  with a show "pending_file (confirm_download now vid w) = Some m"
    by (simp add: send_message_def)
next
  assume p: "pending_file w = Some m \<and> vid \<in> fst ` set m"
  then show d: "pending_file (confirm_download now vid w) = Some (AList.delete vid m)"
    by (simp add: confirm_download_present)
  show n: "vid \<notin> fst ` set (AList.delete vid m)" by (rule delete_key_absent)
  show "list_pending_downloads now' (confirm_download now vid w) =
          send_message
            (if AList.delete vid m = [] then NothingPending
             else PendingList now' (AList.delete vid m))
            (confirm_download now vid w)"
    using d by (simp add: list_pending_downloads_def)
  show "confirm_download now' vid (confirm_download now vid w) =
          send_message (InvalidId vid) (confirm_download now vid w)"
    using d n by (rule confirm_download_absent)
qed

text \<open>
  On the example: \<open>zzz\<close> is unknown to both functions; \<open>b\<close> is confirmed once and
  unknown the second time.
\<close>

theorem confirm_download_not_found_witness:
  "DownloadManager_confirm_download 7 ''zzz'' example_world =
      (False, send_message (DM_InvalidId ''zzz'') example_world)
   \<and> fst (DownloadManager_confirm_download 7 ''b'' example_world)
   \<and> ''b'' \<notin> fst ` set (DownloadManager_load_pending
                (snd (DownloadManager_confirm_download 7 ''b'' example_world)))
   \<and> DownloadManager_confirm_download 8 ''b''
        (snd (DownloadManager_confirm_download 7 ''b'' example_world)) =
      (False, send_message (DM_InvalidId ''b'')
                (snd (DownloadManager_confirm_download 7 ''b'' example_world)))
   \<and> confirm_download 7 ''zzz'' example_world = send_message (InvalidId ''zzz'') example_world
   \<and> confirm_download 8 ''b'' (confirm_download 7 ''b'' example_world) =
      send_message (InvalidId ''b'') (confirm_download 7 ''b'' example_world)"
  using confirm_download_not_found [of "''zzz''" example_world 7 8 "the (pending_file example_world)"]
        confirm_download_not_found [of "''b''" example_world 7 8 "the (pending_file example_world)"]
  by (simp add: example_world_def DownloadManager_load_pending_def)

section \<open>Properties of the string functions and of the tags\<close>

lemma split_on_nonempty: "split_on c s \<noteq> []"
  by (induction s) (auto split: list.splits)

lemma length_split_on: "length (split_on c s) = Suc (count_list s c)"
  by (induction s) (auto split: list.splits simp: split_on_nonempty)

lemma join_split_on: "join [c] (split_on c s) = s"
proof (induction s)
  case Nil
  then show ?case by simp
next
  case (Cons x xs)
  obtain t ts where ts: "split_on c xs = t # ts"
    using split_on_nonempty[of c xs] by (cases "split_on c xs") auto
  show ?case
  proof (cases "x = c")
    case True
    then show ?thesis using Cons ts by simp
  next
    case False
    then show ?thesis using Cons ts by (cases ts) simp_all
  qed
qed

lemma split_on_no_sep: "t \<in> set (split_on c s) \<Longrightarrow> c \<notin> set t"
proof (induction s arbitrary: t)
  case Nil
  then show ?case by simp
next
  case (Cons x xs)
  obtain u us where us: "split_on c xs = u # us"
    using split_on_nonempty[of c xs] by (cases "split_on c xs") auto
  show ?case
  proof (cases "x = c")
    case True
    then show ?thesis using Cons by auto
  next
    case False
    then show ?thesis using Cons us by auto
  qed
qed

lemma strip_trimmed: "strip t = [] \<or> (\<not> isspace (hd (strip t)) \<and> \<not> isspace (last (strip t)))"
proof (cases "strip t = []")
  case True
  then show ?thesis by simp
next
  case False
  let ?d = "dropWhile isspace t"
  let ?r = "dropWhile isspace (rev ?d)"
  have s: "strip t = rev ?r" by (simp add: strip_def)
  with False have r: "?r \<noteq> []" by simp
  then have "\<not> isspace (hd ?r)" by (rule hd_dropWhile)
  then have l: "\<not> isspace (last (strip t))" using r by (simp add: s last_rev)
  have d: "?d \<noteq> []"
  proof
    assume "?d = []"
    with r show False by (metis dropWhile.simps(1) rev.simps(1))
  qed
  then have hd: "\<not> isspace (hd ?d)" by (rule hd_dropWhile)
  obtain a where a: "rev ?d = a @ ?r"
    by (metis takeWhile_dropWhile_id)
  then have "?d = rev ?r @ rev a" by (metis rev_append rev_rev_ident)
  then have "hd ?d = hd (rev ?r)" using r by (metis hd_append2 rev_is_Nil_conv)
  with hd s have "\<not> isspace (hd (strip t))" by simp
  with l show ?thesis by simp
qed

text \<open>
  C2, as stated, fails: the tags answer \<open>WWII,, History\<close> is parsed to three tags,
  the second of them the empty string.
\<close>

theorem parse_tags_keeps_empty_counterexample:
  "parse_tags ''WWII,, History'' = [''WWII'', [], ''History'']
   \<and> [] \<in> set (parse_tags ''WWII,, History'')"
  by (simp add: parse_tags_def strip_def isspace_def)

text \<open>
  C2, amended. For every raw answer to the Tags step, the parsed tag list is the list of
  the pieces between the commas of the answer (joining the pieces with commas gives the
  answer back, and no piece holds a comma), each with the whitespace removed at both
  ends. No piece is dropped: the list has one tag more than the answer has commas, and a
  tag is empty or starts and ends with a character that is not whitespace.
\<close>

theorem parse_tags_split_trim:
  "parse_tags s = map strip (split_on CHR '','' s)
   \<and> join '','' (split_on CHR '','' s) = s
   \<and> (\<forall>t \<in> set (split_on CHR '','' s). CHR '','' \<notin> set t)
   \<and> length (parse_tags s) = Suc (count_list s CHR '','')
   \<and> (\<forall>t \<in> set (parse_tags s). t = [] \<or> (\<not> isspace (hd t) \<and> \<not> isspace (last t)))"
proof (intro conjI ballI)
  show "parse_tags s = map strip (split_on CHR '','' s)" by (simp add: parse_tags_def)
  show "join '','' (split_on CHR '','' s) = s" by (rule join_split_on)
  show "length (parse_tags s) = Suc (count_list s CHR '','')"
    by (simp add: parse_tags_def length_split_on)
next
  fix t assume "t \<in> set (split_on CHR '','' s)"
  then show "CHR '','' \<notin> set t" by (rule split_on_no_sep)
next
  fix t assume "t \<in> set (parse_tags s)"
  then obtain u where "t = strip u" by (auto simp: parse_tags_def)
  then show "t = [] \<or> (\<not> isspace (hd t) \<and> \<not> isspace (last t))"
    using strip_trimmed[of u] by simp
qed

theorem parse_tags_split_trim_witness:
  "parse_tags ''WWII, History'' = [''WWII'', ''History'']
   \<and> join '','' (split_on CHR '','' ''WWII, History'') = ''WWII, History''
   \<and> length (parse_tags ''WWII, History'') = 2"
  using parse_tags_split_trim [of "''WWII, History''"]
  by (simp add: strip_def isspace_def)

section \<open>Properties of the conversation\<close>

lemma py_int_segments: "py_int (of_nat n / 150 * 2) = int (n div 75)"
proof -
  have "(of_nat n::rat) / 150 * 2 = of_nat n / of_nat 75" by simp
  moreover have "(0::rat) \<le> of_nat n / of_nat 75" by simp
  ultimately show ?thesis by (simp only: py_int_def floor_divide_of_nat_eq if_True)
qed

lemma ceiling_two_75: "\<lceil>(2::rat) / 75\<rceil> = 1"
  by code_simp

text \<open>
  C3, as stated, fails: for the script \<open>Hello world\<close> (2 words, 2/150 minutes) the
  summary reports 0 segments, where the ceiling of twice the duration is 1.
\<close>

theorem summary_segments_counterexample:
  "script_summary ''Hello world'' = ScriptReceived 2 (2 / 150) 0 ''Hello world''
   \<and> \<lceil>tempo_estimado ''Hello world'' * 2\<rceil> = 1"
  using ceiling_two_75
  by (simp add: script_summary_def palavra_count_def tempo_estimado_def preview_def
      split_words_def isspace_def py_int_segments[of 2, simplified])

lemmas string_eval = strip_def isspace_def lower_def lower_char_def upper_def upper_char_def
  cancel_words_def finish_words_def endswith_def split_words_def

lemmas script_eval = collect_script_multipart_def collect_script_round_def
  collect_script_body_def script_text_def newline_def py_int_def text_update_def
  document_update_def turn_def example_collector_def example_fetch_def send_message_def

text \<open>
  C7. The two modes of the script step agree on the example. The fragments
  \<open>Part one.\<close> and \<open>Part two.\<close> followed by \<open>PRONTO\<close>, each arriving in its own
  poll, make the step return the two fragments joined by a newline; a single uploaded
  document \<open>roteiro.txt\<close> with that content makes it return the same text. This holds
  in every state of the world.
\<close>

theorem script_modes_agree:
  "map_option fst
     (collect_script_multipart example_fetch 900
        [turn 3 (Batch [text_update 100 ''Part one.'']),
         turn 40 (Batch [text_update 101 ''Part two.'']),
         turn 55 (Batch [text_update 102 ''PRONTO''])]
        (example_collector, w))
     = Some (Inr (Some (''Part one.'' @ newline @ ''Part two.'')))
   \<and> map_option fst
     (collect_script_multipart example_fetch 900
        [turn 3 (Batch [document_update 100 ''roteiro.txt'' ''f1''])]
        (example_collector, w))
     = Some (Inr (Some (''Part one.'' @ newline @ ''Part two.'')))"
  by (simp add: script_eval string_eval Let_def)

lemma collect_script_step_Some:
  assumes "collect_script_step env titulo descricao tags s = Some (Inr (Some vd), c', w')"
  shows "\<exists>c1 w1 roteiro.
           collect_script_multipart (fetch_file env) 900 (script_rounds env) s =
             Some (Inr (Some roteiro), c1, w1)
           \<and> roteiro \<noteq> [] \<and> c' = c1
           \<and> vd = build_video_data env titulo descricao tags roteiro
           \<and> w' = (send_message (script_summary roteiro) w1)
                    \<lparr>production_files :=
                       production_files (send_message (script_summary roteiro) w1) @ [vd]\<rparr>"
  using assms
  by (auto simp: collect_script_step_def Let_def
      split: option.splits sum.splits exn.splits if_splits)

lemma py_int_div_75: "py_int (of_nat n / 75) = int (n div 75)"
  using py_int_segments[of n] by simp

text \<open>
  C3, amended. Whenever the last step of the conversation succeeds with script \<open>S\<close>
  (the script of the record it returns), the last message sent is the summary of
  \<open>S\<close>: the number of words of \<open>S\<close>, that number divided by 150 as the duration in
  minutes, a segment count that is twice the duration rounded down (the word count
  divided by 75, rounded down), and a preview that is \<open>S\<close> itself when \<open>S\<close> has at
  most 200 characters and otherwise its first 200 characters followed by three dots. The
  record holds the same word count and duration.
\<close>

theorem summary_reports_statistics:
  assumes "collect_script_step env titulo descricao tags s = Some (Inr (Some vd), c', w')"
  shows "last (sent w') =
           ScriptReceived (length (split_words (vd_script vd)))
             (of_nat (length (split_words (vd_script vd))) / 150)
             (int (length (split_words (vd_script vd)) div 75))
             (if 200 < length (vd_script vd) then take 200 (vd_script vd) @ ''...''
              else vd_script vd)
         \<and> word_count vd = length (split_words (vd_script vd))
         \<and> estimated_duration vd = of_nat (word_count vd) / 150"
proof -
  from collect_script_step_Some[OF assms] obtain w1 roteiro where
    vd: "vd = build_video_data env titulo descricao tags roteiro" and
    w': "w' = (send_message (script_summary roteiro) w1)
                \<lparr>production_files :=
                   production_files (send_message (script_summary roteiro) w1) @ [vd]\<rparr>"
    by blast
  have r: "vd_script vd = roteiro" by (simp add: vd build_video_data_def)
  have "last (sent w') = script_summary roteiro" by (simp add: w' send_message_def)
  then show ?thesis
    by (simp add: r script_summary_def palavra_count_def tempo_estimado_def preview_def
        py_int_div_75 vd build_video_data_def)
qed

text \<open>On the end-to-end scenario the summary reports 2 words and 0 segments.\<close>

theorem summary_reports_statistics_witness:
  "last (sent (snd (snd (the (collect_script_step example_env ''D-Day'' ''desc''
       [''WWII'', ''History''] (example_collector, empty_world))))))
     = ScriptReceived 2 (2 / 150) 0 ''Hello world''"
proof -
  have "\<exists>vd c' w'. collect_script_step example_env ''D-Day'' ''desc''
       [''WWII'', ''History''] (example_collector, empty_world) = Some (Inr (Some vd), c', w')
       \<and> vd_script vd = ''Hello world''"
    by (simp add: collect_script_step_def example_env_def script_eval string_eval Let_def
        build_video_data_def empty_world_def)
  then obtain vd c' w' where e: "collect_script_step example_env ''D-Day'' ''desc''
       [''WWII'', ''History''] (example_collector, empty_world) = Some (Inr (Some vd), c', w')"
    and v: "vd_script vd = ''Hello world''" by blast
  from summary_reports_statistics[OF e] show ?thesis
    by (simp add: e v split_words_def isspace_def)
qed

lemma lower_c_upper: "lower_char x = CHR ''c'' \<Longrightarrow> upper_char x = CHR ''C''"
  by (simp add: lower_char_def upper_char_def split: if_splits)

lemma finish_word_not_cancel:
  assumes "upper t \<in> set finish_words"
  shows "t \<noteq> [] \<and> lower t \<notin> set cancel_words"
proof
  from assms show "t \<noteq> []" by (auto simp: finish_words_def upper_def)
  show "lower t \<notin> set cancel_words"
  proof
    assume c: "lower t \<in> set cancel_words"
    have l: "length (lower t) = length (upper t)" by (simp add: lower_def upper_def)
    from c l assms have "lower t = ''cancel''"
      by (auto simp: cancel_words_def finish_words_def)
    then obtain x xs where t: "t = x # xs" and x: "lower_char x = CHR ''c''"
      by (cases t) (auto simp: lower_def)
    from x have "upper_char x = CHR ''C''" by (rule lower_c_upper)
    with assms t show False by (auto simp: finish_words_def upper_def)
  qed
qed

lemma script_text_finish_empty:
  assumes "upper (strip (msg_text m)) \<in> set finish_words"
  shows "script_text m (c, w, []) = (Continue, c, send_message NoScriptYet w, [])"
  using assms finish_word_not_cancel[OF assms]
  by (simp add: script_text_def Let_def)

text \<open>
  C9. A finish word with no fragment collected. Let a text message of the operator's
  chat, with no document, arrive in the script step while \<open>roteiro_partes\<close> is empty,
  its text a finish word in any letter case. Then the loop body sends the notice that no
  script was sent yet and goes on: nothing is returned, the fragment list is still
  empty, the rest of the batch is processed, and when the message was a whole batch the
  \<open>while\<close> loop goes on with its next turn, under the same timeout, from that state.
\<close>

theorem finish_word_without_fragments:
  assumes "payload u = Message m" and "chat m = chat_id c" and "msg_document m = None"
    and "upper (strip (msg_text m)) \<in> set finish_words"
  shows "collect_script_body fetch u (c, w, []) =
           (Continue, c\<lparr>update_offset := update_id u + 1\<rparr>, send_message NoScriptYet w, [])
       \<and> for_updates (collect_script_body fetch) (u # us) (c, w, []) =
           for_updates (collect_script_body fetch) us
             (c\<lparr>update_offset := update_id u + 1\<rparr>, send_message NoScriptYet w, [])
       \<and> (clock_check r < timeout \<and> 0 < py_int (timeout - clock_body r)
            \<and> poll_response r = Batch [u] \<longrightarrow>
          collect_script_loop fetch timeout (r # rs) (c, w, []) =
            collect_script_loop fetch timeout rs
              (c\<lparr>update_offset := update_id u + 1\<rparr>, send_message NoScriptYet w, []))"
proof -
  have b: "collect_script_body fetch u (c, w, []) =
           (Continue, c\<lparr>update_offset := update_id u + 1\<rparr>, send_message NoScriptYet w, [])"
    using assms(1-3) script_text_finish_empty[OF assms(4)]
    by (simp add: collect_script_body_def Let_def)
  then show ?thesis by (simp add: collect_script_round_def)
qed


text \<open>
  On the example, \<open>Pronto\<close> as the first message is rejected; with nothing else
  arriving, the step ends at its timeout with no script.
\<close>

theorem finish_word_without_fragments_witness:
  "collect_script_body example_fetch (text_update 100 ''Pronto'') (example_collector, empty_world, []) =
     (Continue, example_collector\<lparr>update_offset := 101\<rparr>, send_message NoScriptYet empty_world, [])
   \<and> collect_script_loop example_fetch 900
        [turn 3 (Batch [text_update 100 ''Pronto'']), turn 901 Failed]
        (example_collector, empty_world, []) =
      Some (Inr None, example_collector\<lparr>update_offset := 101\<rparr>,
            send_message NoScriptYet empty_world)"
  using finish_word_without_fragments
          [of "text_update 100 ''Pronto''"
              "\<lparr>chat = ''42'', msg_text = ''Pronto'', msg_document = None\<rparr>"
              example_collector example_fetch empty_world "[]" "turn 3 (Batch [text_update 100 ''Pronto''])"
              900 "[turn 901 Failed]"]
  by (simp add: text_update_def example_collector_def turn_def py_int_def string_eval
      collect_script_round_def)

lemma collect_script_loop_append:
  "collect_script_running fetch timeout pre s = Some s1 \<Longrightarrow>
     collect_script_loop fetch timeout (pre @ post) s = collect_script_loop fetch timeout post s1"
  by (induction pre arbitrary: s) (auto split: sum.splits)

lemma collect_script_loop_timeout:
  "\<not> (clock_check r < timeout \<and> 0 < py_int (timeout - clock_body r)) \<Longrightarrow>
     collect_script_loop fetch timeout (r # rs) (c, w, partes) =
       Some (Inr (if partes \<noteq> [] then Some (join newline partes) else None), c, w)"
  by (auto simp: collect_script_round_def)

lemma for_updates_invariant:
  assumes "\<And>u s f s1. I s \<Longrightarrow> body u s = (f, s1) \<Longrightarrow> I s1"
  shows "I s \<Longrightarrow> for_updates body us s = (res, s') \<Longrightarrow> I s'"
proof (induction us arbitrary: s)
  case Nil
  then show ?case by simp
next
  case (Cons u us)
  obtain f s1 where b: "body u s = (f, s1)" by (cases "body u s") auto
  with Cons.prems(1) have i: "I s1" using assms by blast
  show ?case
  proof (cases f)
    case Continue
    with Cons b i show ?thesis by simp
  next
    case (Stop r)
    with Cons.prems b i show ?thesis by auto
  qed
qed

lemma script_text_fragments:
  assumes "[] \<notin> set partes" "script_text m (c, w, partes) = (f, c', w', partes')"
  shows "[] \<notin> set partes'"
  using assms by (auto simp: script_text_def Let_def split: if_splits)

lemma collect_script_body_fragments:
  assumes "[] \<notin> set (snd (snd s))" "collect_script_body fetch u s = (f, s1)"
  shows "[] \<notin> set (snd (snd s1))"
proof -
  obtain c w partes where s: "s = (c, w, partes)" by (cases s) auto
  obtain c1 w1 partes1 where s1: "s1 = (c1, w1, partes1)" by (cases s1) auto
  show ?thesis
    using assms script_text_fragments[of partes]
    unfolding s s1 collect_script_body_def Let_def
    by (auto split: payload.splits option.splits if_splits file_fetch.splits)
qed

lemma collect_script_round_fragments:
  assumes "[] \<notin> set (snd (snd s))" "collect_script_round fetch timeout r s = Inr s1"
  shows "[] \<notin> set (snd (snd s1))"
proof (cases "poll_response r")
  case (Batch updates)
  obtain res s' where f: "for_updates (collect_script_body fetch) updates s = (res, s')"
    by (cases "for_updates (collect_script_body fetch) updates s") auto
  have "[] \<notin> set (snd (snd s'))"
    using for_updates_invariant[where I = "\<lambda>s. [] \<notin> set (snd (snd s))" and body = "collect_script_body fetch",
        OF _ assms(1) f] collect_script_body_fragments by blast
  with assms(2) Batch f show ?thesis
    by (auto simp: collect_script_round_def split: if_splits option.splits sum.splits prod.splits)
qed (use assms in \<open>auto simp: collect_script_round_def split: if_splits prod.splits\<close>)

lemma collect_script_running_fragments:
  "[] \<notin> set (snd (snd s)) \<Longrightarrow> collect_script_running fetch timeout pre s = Some s1 \<Longrightarrow>
     [] \<notin> set (snd (snd s1))"
proof (induction pre arbitrary: s)
  case Nil
  then show ?case by simp
next
  case (Cons r pre)
  then show ?case
    using collect_script_round_fragments[of s fetch timeout r]
    by (auto split: sum.splits)
qed

lemma join_nonempty: "ps \<noteq> [] \<Longrightarrow> [] \<notin> set ps \<Longrightarrow> join sep ps \<noteq> []"
  by (induction sep ps rule: join.induct) auto

text \<open>
  C10. The script step at its timeout. Suppose that after some turns of the loop, counted
  from the start of the step, the loop is still running (no finish word, document or
  cancellation has ended it) and holds the fragments \<open>partes\<close>, and that in the next
  turn the timeout of 900 seconds has elapsed. Then \<open>collect_script_multipart\<close>
  returns the fragments joined with newlines when there is at least one, and \<open>None\<close>
  when there is none; and the conversation, in the first case, sends the summary, builds
  the record with that script and stores it, and in the second case sends the notice
  that no script was received and returns no record.
\<close>

theorem script_timeout_outcome:
  assumes "collect_script_running (fetch_file env) 900 pre (c, send_message AskScript w, []) =
             Some (c1, w1, partes)"
    and "\<not> (clock_check r < 900 \<and> 0 < py_int (900 - clock_body r))"
    and "script_rounds env = pre @ r # rs"
  shows "collect_script_multipart (fetch_file env) 900 (script_rounds env) (c, w) =
           Some (Inr (if partes \<noteq> [] then Some (join newline partes) else None), c1, w1)
       \<and> collect_script_step env titulo descricao tags (c, w) =
           (if partes \<noteq> []
            then Some (Inr (Some (build_video_data env titulo descricao tags (join newline partes))),
                       c1,
                       (send_message (script_summary (join newline partes)) w1)
                         \<lparr>production_files := production_files w1 @
                            [build_video_data env titulo descricao tags (join newline partes)]\<rparr>)
            else Some (Inr None, c1, send_message ScriptNotReceived w1))"
proof -
  have m: "collect_script_multipart (fetch_file env) 900 (script_rounds env) (c, w) =
           Some (Inr (if partes \<noteq> [] then Some (join newline partes) else None), c1, w1)"
    using collect_script_loop_append[OF assms(1), of "r # rs"]
      collect_script_loop_timeout[OF assms(2), of "fetch_file env" rs c1 w1 partes]
    by (simp add: collect_script_multipart_def assms(3))
  have "[] \<notin> set partes"
    using collect_script_running_fragments[OF _ assms(1)] by simp
  then have j: "partes \<noteq> [] \<Longrightarrow> join newline partes \<noteq> []"
    by (simp add: join_nonempty)
  show ?thesis
    using m j by (simp add: collect_script_step_def Let_def send_message_def)
qed


text \<open>
  On the example, one fragment arrives and then the time runs out: the step returns the
  fragment and the conversation returns the record.
\<close>

theorem script_timeout_outcome_witness:
  "map_option fst
     (collect_script_multipart example_fetch 900
        [turn 3 (Batch [text_update 103 ''Hello world'']), turn 901 Failed]
        (example_collector, empty_world))
     = Some (Inr (Some ''Hello world''))
   \<and> map_option fst
     (collect_script_step
        (example_env\<lparr>script_rounds :=
           [turn 3 (Batch [text_update 103 ''Hello world'']), turn 901 Failed]\<rparr>)
        ''D-Day'' ''desc'' [''WWII'', ''History''] (example_collector, empty_world))
     = Some (Inr (Some (build_video_data example_env ''D-Day'' ''desc'' [''WWII'', ''History'']
                          ''Hello world'')))"
proof -
  let ?env = "example_env\<lparr>script_rounds :=
           [turn 3 (Batch [text_update 103 ''Hello world'']), turn 901 Failed]\<rparr>"
  have f: "fetch_file ?env = example_fetch" by (simp add: example_env_def)
  have "\<exists>c1 w1. collect_script_running (fetch_file ?env) 900
          [turn 3 (Batch [text_update 103 ''Hello world''])]
          (example_collector, send_message AskScript empty_world, []) =
        Some (c1, w1, [''Hello world''])"
    by (simp add: f script_eval string_eval Let_def)
  then obtain c1 w1 where run: "collect_script_running (fetch_file ?env) 900
          [turn 3 (Batch [text_update 103 ''Hello world''])]
          (example_collector, send_message AskScript empty_world, []) =
        Some (c1, w1, [''Hello world''])" by blast
  have out: "\<not> (clock_check (turn 901 Failed) < 900
               \<and> 0 < py_int (900 - clock_body (turn 901 Failed)))"
    by (simp add: turn_def)
  have rounds: "script_rounds ?env =
      [turn 3 (Batch [text_update 103 ''Hello world''])] @ turn 901 Failed # []"
    by simp
  from script_timeout_outcome[OF run out rounds, of "''D-Day''" "''desc''" "[''WWII'', ''History'']"]
  show ?thesis
    by (simp add: f build_video_data_def example_env_def)
qed

section \<open>Properties of the update cursor\<close>

lemma forget_Continue: "(forget f = Continue) = (f = Continue)"
  by (cases f) (simp_all add: forget_def)

lemma check_for_cancel_body_cursor:
  "update_offset (fst (snd (check_for_cancel_body now u (c, w)))) = update_id u + 1"
  by (simp add: check_for_cancel_body_def Let_def split: payload.splits)

lemma wait_for_message_body_cursor:
  "update_offset (fst (snd (wait_for_message_body now u (c, w)))) = update_id u + 1"
  by (simp add: wait_for_message_body_def Let_def split: payload.splits)

lemma script_text_cursor: "fst (snd (script_text m (c, w, partes))) = c"
  by (simp add: script_text_def Let_def)

lemma collect_script_body_cursor:
  "update_offset (fst (snd (collect_script_body fetch u (c, w, partes)))) = update_id u + 1"
  by (simp add: collect_script_body_def Let_def script_text_cursor
      split: payload.splits option.splits file_fetch.splits)

lemma handle_download_commands_body_cursor:
  "update_offset (fst (snd (handle_download_commands_body now u (c, w)))) = update_id u + 1"
  by (simp add: handle_download_commands_body_def Let_def split: payload.splits)

lemma poll_body_cursor:
  "update_offset (fst (snd (poll_body now fetch op u s))) = update_id u + 1"
proof -
  obtain c w partes where s: "s = (c, w, partes)" by (cases s) auto
  show ?thesis
    using check_for_cancel_body_cursor[of now u c w] wait_for_message_body_cursor[of now u c w]
      collect_script_body_cursor[of fetch u c w partes]
      handle_download_commands_body_cursor[of now u c w]
    by (cases op) (simp_all add: s poll_body_def split_beta)
qed


lemma poll_body_advanced_first:
  "poll_body now fetch op u (c\<lparr>update_offset := update_id u + 1\<rparr>, w, partes) =
     poll_body now fetch op u (c, w, partes)"
  by (cases op)
     (simp_all add: poll_body_def check_for_cancel_body_def wait_for_message_body_def
        collect_script_body_def handle_download_commands_body_def Let_def
        split: payload.splits option.splits file_fetch.splits)

lemma evaluated_prefix: "\<exists>rest. us = evaluated body us s @ rest"
proof (induction us arbitrary: s)
  case Nil
  then show ?case by simp
next
  case (Cons u us)
  obtain f s1 where b: "body u s = (f, s1)" by (cases "body u s") auto
  show ?case
  proof (cases f)
    case Continue
    with b Cons[of s1] show ?thesis by auto
  next
    case (Stop r)
    with b show ?thesis by simp
  qed
qed

lemma for_updates_cursor:
  assumes "\<And>u s. cur (snd (body u s)) = update_id u + 1"
  shows "cur (snd (for_updates body us s)) =
     (if evaluated body us s = [] then cur s else update_id (last (evaluated body us s)) + 1)"
proof (induction us arbitrary: s)
  case Nil
  then show ?case by simp
next
  case (Cons u us)
  obtain f s1 where b: "body u s = (f, s1)" by (cases "body u s") auto
  have c1: "cur s1 = update_id u + 1" using assms[of u s] b by simp
  show ?case
  proof (cases f)
    case Continue
    with b c1 Cons[of s1] show ?thesis by simp
  next
    case (Stop r)
    with b c1 show ?thesis by simp
  qed
qed

text \<open>One poll whose answer keeps the promise of the feed.\<close>

lemma poll_step:
  assumes "batch_ok (update_offset (fst s)) r"
  shows "update_offset (fst s) \<le> update_offset (fst (poll now fetch op r s))
       \<and> sorted_wrt (<) (map update_id (poll_evaluated now fetch op r s))
       \<and> list_all (\<lambda>u. update_offset (fst s) \<le> update_id u
                        \<and> update_id u < update_offset (fst (poll now fetch op r s)))
            (poll_evaluated now fetch op r s)"
proof (cases r)
  case (Batch us)
  let ?E = "evaluated (poll_body now fetch op) us s"
  let ?s' = "snd (for_updates (poll_body now fetch op) us s)"
  obtain rest where us: "us = ?E @ rest"
    using evaluated_prefix[of us "poll_body now fetch op" s] by auto
  from assms Batch have so: "sorted_wrt (<) (map update_id us)"
    and ge: "list_all (\<lambda>u. update_offset (fst s) \<le> update_id u) us"
    by (simp_all add: batch_ok_def)
  from so us have sE: "sorted_wrt (<) (map update_id ?E)"
    by (metis map_append sorted_wrt_append)
  from ge us have gE: "list_all (\<lambda>u. update_offset (fst s) \<le> update_id u) ?E"
    by (metis list_all_append)
  have cur: "update_offset (fst ?s') =
      (if ?E = [] then update_offset (fst s) else update_id (last ?E) + 1)"
    using for_updates_cursor[where cur = "\<lambda>s. update_offset (fst s)"
        and body = "poll_body now fetch op", OF poll_body_cursor] .
  have lt: "\<And>u. u \<in> set ?E \<Longrightarrow> update_id u \<le> update_id (last ?E)"
  proof -
    fix u assume u: "u \<in> set ?E"
    then have ne: "?E \<noteq> []" by auto
    then have E: "?E = butlast ?E @ [last ?E]" by simp
    show "update_id u \<le> update_id (last ?E)"
    proof (cases "u \<in> set (butlast ?E)")
      case True
      from sE E have "sorted_wrt (<) (map update_id (butlast ?E @ [last ?E]))" by simp
      then have "\<forall>x \<in> set (butlast ?E). update_id x < update_id (last ?E)"
        by (simp add: sorted_wrt_append)
      with True show ?thesis by auto
    next
      case False
      with u E have "u = last ?E" by (metis Un_iff empty_iff insert_iff list.set(1) list.set(2) set_append)
      then show ?thesis by simp
    qed
  qed
  have mono: "update_offset (fst s) \<le> update_offset (fst ?s')"
  proof (cases "?E = []")
    case True
    then show ?thesis using cur by simp
  next
    case False
    then have "last ?E \<in> set ?E" by simp
    with gE have "update_offset (fst s) \<le> update_id (last ?E)" by (simp add: list_all_iff)
    then show ?thesis using cur False by simp
  qed
  have rng: "list_all (\<lambda>u. update_offset (fst s) \<le> update_id u
                        \<and> update_id u < update_offset (fst ?s')) ?E"
    unfolding list_all_iff
  proof
    fix u assume u: "u \<in> set ?E"
    then have ne: "?E \<noteq> []" by auto
    from u gE have "update_offset (fst s) \<le> update_id u" by (simp add: list_all_iff)
    moreover from lt[OF u] cur ne have "update_id u < update_offset (fst ?s')" by simp
    ultimately show "update_offset (fst s) \<le> update_id u \<and> update_id u < update_offset (fst ?s')"
      by simp
  qed
  show ?thesis using mono sE rng by (simp add: Batch poll_def poll_evaluated_def)
qed (simp_all add: poll_def poll_evaluated_def)

lemma feed_ok_run:
  "feed_ok now fetch ops s \<Longrightarrow>
     sorted (update_offset (fst s) # cursor_log now fetch ops s)
     \<and> sorted_wrt (<) (map update_id (evaluated_log now fetch ops s))
     \<and> list_all (\<lambda>u. update_offset (fst s) \<le> update_id u
                      \<and> update_id u < last (update_offset (fst s) # cursor_log now fetch ops s))
          (evaluated_log now fetch ops s)"
proof (induction ops arbitrary: s)
  case Nil
  then show ?case by simp
next
  case (Cons p ps)
  obtain op r where p: "p = (op, r)" by (cases p) auto
  let ?s' = "poll now fetch op r s"
  let ?E1 = "poll_evaluated now fetch op r s"
  let ?E2 = "evaluated_log now fetch ps ?s'"
  let ?L = "cursor_log now fetch ps ?s'"
  from Cons.prems p have ok: "batch_ok (update_offset (fst s)) r" and f: "feed_ok now fetch ps ?s'"
    by simp_all
  note st = poll_step[OF ok, of now fetch op]
  note ih = Cons.IH[OF f]
  from st have m: "update_offset (fst s) \<le> update_offset (fst ?s')" by simp
  from ih have sl: "sorted (update_offset (fst ?s') # ?L)" by simp
  have le_last: "update_offset (fst ?s') \<le> last (update_offset (fst ?s') # ?L)"
    using sl by (metis last_in_set list.discI set_ConsD sorted_simps(2) order_refl)
  have a: "sorted (update_offset (fst s) # update_offset (fst ?s') # ?L)"
    using m sl by auto
  have b: "sorted_wrt (<) (map update_id (?E1 @ ?E2))"
    using st ih by (fastforce simp: sorted_wrt_append list_all_iff)
  have c: "list_all (\<lambda>u. update_offset (fst s) \<le> update_id u
                      \<and> update_id u < last (update_offset (fst ?s') # ?L)) (?E1 @ ?E2)"
    using st ih m le_last by (fastforce simp: list_all_iff)
  show ?case using a b c by (simp add: p)
qed


text \<open>The polls of the sequences are the loops of the four functions.\<close>

lemma poll_collect_script:
  "poll now fetch CollectScript (Batch us) s = snd (for_updates (collect_script_body fetch) us s)"
proof (induction us arbitrary: s)
  case Nil
  then show ?case by (simp add: poll_def)
next
  case (Cons u us)
  obtain c w partes where s: "s = (c, w, partes)" by (cases s) auto
  obtain f s1 where b: "collect_script_body fetch u (c, w, partes) = (f, s1)"
    by (cases "collect_script_body fetch u (c, w, partes)") auto
  show ?case
    using Cons[of s1] b
    by (cases f) (simp_all add: poll_def poll_body_def s forget_def)
qed

lemma poll_pair:
  assumes "\<And>u c w partes. poll_body now fetch op u (c, w, partes) =
             (case body u (c, w) of (f, c1, w1) \<Rightarrow> (forget f, c1, w1, partes))"
  shows "poll now fetch op (Batch us) (c, w, partes) =
           (case snd (for_updates body us (c, w)) of (c1, w1) \<Rightarrow> (c1, w1, partes))"
proof (induction us arbitrary: c w)
  case Nil
  then show ?case by (simp add: poll_def)
next
  case (Cons u us)
  obtain f c1 w1 where b: "body u (c, w) = (f, c1, w1)"
    by (cases "body u (c, w)") auto
  show ?case
    using Cons[of c1 w1] b assms[of u c w partes]
    by (cases f) (simp_all add: poll_def forget_def)
qed

lemma poll_check_for_cancel:
  "poll now fetch CheckForCancel r (c, w, partes) =
     (case snd (check_for_cancel now r (c, w)) of (c1, w1) \<Rightarrow> (c1, w1, partes))"
proof (cases r)
  case (Batch us)
  have "poll now fetch CheckForCancel (Batch us) (c, w, partes) =
      (case snd (for_updates (check_for_cancel_body now) us (c, w)) of
         (c1, w1) \<Rightarrow> (c1, w1, partes))"
    by (rule poll_pair) (simp add: poll_body_def)
  then show ?thesis
    by (simp add: Batch check_for_cancel_def split: prod.splits option.splits)
qed (simp_all add: poll_def check_for_cancel_def)

lemma poll_handle_download_commands:
  "poll now fetch HandleDownloadCommands r (c, w, partes) =
     (case handle_download_commands now r (c, w) of (c1, w1) \<Rightarrow> (c1, w1, partes))"
proof (cases r)
  case (Batch us)
  have "poll now fetch HandleDownloadCommands (Batch us) (c, w, partes) =
      (case snd (for_updates (handle_download_commands_body now) us (c, w)) of
         (c1, w1) \<Rightarrow> (c1, w1, partes))"
    by (rule poll_pair) (simp add: poll_body_def)
  then show ?thesis by (simp add: Batch handle_download_commands_def)
qed (simp_all add: poll_def handle_download_commands_def)

lemma poll_wait_for_message:
  "poll now fetch WaitForMessage (Batch us) (c, w, partes) =
     (case snd (for_updates (wait_for_message_body now) us (c, w)) of
        (c1, w1) \<Rightarrow> (c1, w1, partes))"
  by (rule poll_pair) (simp add: poll_body_def)

text \<open>
  C8. Cursor monotonicity. Take any sequence of polls by \<open>wait_for_message\<close>,
  \<open>check_for_cancel\<close>, \<open>collect_script_multipart\<close> and
  \<open>handle_download_commands\<close>, started in any state, in which every answer of the
  feed keeps its promise for the offset asked (increasing ids, none below the offset).
  Then the cursor never decreases from one poll to the next; the ids of the updates
  evaluated, over the whole sequence, increase strictly, so no update is evaluated twice,
  and each lies between the first cursor and the last; the loop body sets the cursor to
  one past the update it is given, and gives the same result when the cursor is advanced
  before the body runs; a failed request, an answer that is not ok and an empty batch
  leave the state, hence the cursor, unchanged.
\<close>

theorem cursor_monotone:
  assumes "feed_ok now fetch ops s"
  shows "sorted (update_offset (fst s) # cursor_log now fetch ops s)
       \<and> sorted_wrt (<) (map update_id (evaluated_log now fetch ops s))
       \<and> list_all (\<lambda>u. update_offset (fst s) \<le> update_id u
                        \<and> update_id u < last (update_offset (fst s) # cursor_log now fetch ops s))
            (evaluated_log now fetch ops s)
       \<and> update_offset (fst (snd (poll_body now fetch op u s))) = update_id u + 1
       \<and> poll_body now fetch op u ((fst s)\<lparr>update_offset := update_id u + 1\<rparr>, snd s) =
           poll_body now fetch op u s
       \<and> poll now fetch op Failed s = s
       \<and> poll now fetch op NotOk s = s
       \<and> poll now fetch op (Batch []) s = s"
proof -
  obtain c w partes where s: "s = (c, w, partes)" by (cases s) auto
  have "poll_body now fetch op u ((fst s)\<lparr>update_offset := update_id u + 1\<rparr>, snd s) =
           poll_body now fetch op u s"
    using poll_body_advanced_first[of now fetch op u c w partes] by (simp add: s)
  then show ?thesis
    using feed_ok_run[OF assms] poll_body_cursor[of now fetch op u s]
    by (simp add: poll_def)
qed

text \<open>
  On the example, the second poll returns at the reply \<open>A\<close> and leaves update 102 to
  the next poll, which evaluates it once.
\<close>

theorem cursor_monotone_witness:
  "cursor_log 0 example_fetch
     [(CheckForCancel, Batch [text_update 100 ''hi'']),
      (WaitForMessage, Batch [text_update 101 ''A'', text_update 102 ''B'']),
      (WaitForMessage, Batch [text_update 102 ''B'']),
      (CollectScript, Failed),
      (HandleDownloadCommands, Batch [])]
     (example_collector, empty_world, []) = [101, 102, 103, 103, 103]
   \<and> map update_id (evaluated_log 0 example_fetch
     [(CheckForCancel, Batch [text_update 100 ''hi'']),
      (WaitForMessage, Batch [text_update 101 ''A'', text_update 102 ''B'']),
      (WaitForMessage, Batch [text_update 102 ''B'']),
      (CollectScript, Failed),
      (HandleDownloadCommands, Batch [])]
     (example_collector, empty_world, [])) = [100, 101, 102]
   \<and> sorted (update_offset example_collector # cursor_log 0 example_fetch
     [(CheckForCancel, Batch [text_update 100 ''hi'']),
      (WaitForMessage, Batch [text_update 101 ''A'', text_update 102 ''B'']),
      (WaitForMessage, Batch [text_update 102 ''B'']),
      (CollectScript, Failed),
      (HandleDownloadCommands, Batch [])]
     (example_collector, empty_world, []))"
proof -
  let ?ops = "[(CheckForCancel, Batch [text_update 100 ''hi'']),
      (WaitForMessage, Batch [text_update 101 ''A'', text_update 102 ''B'']),
      (WaitForMessage, Batch [text_update 102 ''B'']),
      (CollectScript, Failed),
      (HandleDownloadCommands, Batch [])]"
  have ev: "cursor_log 0 example_fetch ?ops (example_collector, empty_world, []) =
        [101, 102, 103, 103, 103]
      \<and> map update_id (evaluated_log 0 example_fetch ?ops (example_collector, empty_world, [])) =
        [100, 101, 102]
      \<and> feed_ok 0 example_fetch ?ops (example_collector, empty_world, [])"
    apply (simp add: poll_def poll_evaluated_def batch_ok_def)
    apply (simp add: poll_body_def)
    apply (simp add: check_for_cancel_body_def wait_for_message_body_def Let_def
        text_update_def example_collector_def)
    apply (simp add: string_eval forget_def)
    apply (simp add: text_update_def)
    done
  then have ok: "feed_ok 0 example_fetch ?ops (example_collector, empty_world, [])" by blast
  have "sorted (update_offset (fst (example_collector, empty_world, []::string list)) #
      cursor_log 0 example_fetch ?ops (example_collector, empty_world, []))"
    using cursor_monotone[OF ok, of CheckForCancel "text_update 100 ''hi''"] by blast
  then have "sorted (update_offset example_collector #
      cursor_log 0 example_fetch ?ops (example_collector, empty_world, []))"
    by (simp only: fst_conv)
  with ev show ?thesis by blast
qed

section \<open>Properties of the exit status\<close>

lemmas wait_eval = wait_for_message_def wait_for_message_body_def check_for_cancel_def
  check_for_cancel_body_def

lemmas conversation_eval = collect_video_info_def collect_description_step_def
  collect_tags_step_def collect_script_step_def TelegramCollector_def get_last_update_id_def

text \<open>
  \<open>collect_video_info\<close> is not an attribute of a collector, and neither is
  \<open>send_message\<close>.
\<close>

lemma collect_video_info_not_attribute:
  "\<not> has_attribute ''collect_video_info'' \<and> \<not> has_attribute ''send_message''"
  by (simp add: has_attribute_def TelegramCollector_attributes_def)

text \<open>
  With both environment variables set, \<open>main\<close> returns 1 whatever the operator and
  the production do, and sends nothing: the lookup of \<open>collect_video_info\<close> raises,
  the handler of \<open>Exception\<close> runs, and its own \<open>send_message\<close> raises and is
  passed over.
\<close>

lemma main_configured:
  "tok \<noteq> [] \<Longrightarrow> cid \<noteq> [] \<Longrightarrow>
     main (Some tok) (Some cid) first_response env run_production w = Some (1, w)"
  using collect_video_info_not_attribute by (simp add: main_def report_error_def)

text \<open>
  C4. The exit status. The statement that the process exits with 0 when the conversation
  completes normally does not hold of the code: in the end-to-end scenario, where the
  operator answers the four questions and the production reports success, \<open>main\<close>
  returns 1 and no message is sent.
\<close>

theorem main_exit_status_end_to_end:
  "main (Some ''token'') (Some ''42'') (Batch []) example_env (\<lambda>video_data. Inr True)
     empty_world = Some (1, empty_world)"
  using collect_video_info_not_attribute by (simp add: main_def report_error_def)

text \<open>
  The body of \<open>collect_video_info\<close> on the same scenario does return a record, so the
  status 1 comes from the lookup, not from the conversation.
\<close>

lemma collect_video_info_end_to_end:
  "\<exists>vd c1 w1.
     collect_video_info example_env (TelegramCollector ''42'' (Batch []), empty_world) =
       Some (Inr (Some vd), c1, w1)
     \<and> vd_title vd = ''D-Day'' \<and> vd_tags vd = [''WWII'', ''History''] \<and> word_count vd = 2"
  by (simp add: conversation_eval wait_eval example_env_def script_eval string_eval
      parse_tags_def build_video_data_def palavra_count_def Let_def)

text \<open>
  What the body of \<open>collect_video_info\<close> does when a step gets no reply before its
  timeout: each of the first three steps sends the time-expired notice, the script step
  the notice that no script was received, and no record is returned.
\<close>

lemma collect_video_info_timeout:
  "(wait_for_message (time_now env) 600 (title_rounds env)
      (c, send_message AskTitle (send_message Welcome (w\<lparr>cancel_flag := None\<rparr>))) =
      Some (Inr None, c1, w1) \<longrightarrow>
    collect_video_info env (c, w) = Some (Inr None, c1, send_message TimeExpired w1))
   \<and> (wait_for_message (time_now env) 600 (description_rounds env)
        (c, send_message AskDescription w) = Some (Inr None, c1, w1) \<longrightarrow>
      collect_description_step env titulo (c, w) =
        Some (Inr None, c1, send_message TimeExpired w1))
   \<and> (wait_for_message (time_now env) 600 (tags_rounds env)
        (c, send_message AskTags w) = Some (Inr None, c1, w1) \<longrightarrow>
      collect_tags_step env titulo descricao (c, w) =
        Some (Inr None, c1, send_message TimeExpired w1))
   \<and> (collect_script_multipart (fetch_file env) 900 (script_rounds env) (c, w) =
        Some (Inr None, c1, w1) \<longrightarrow>
      collect_script_step env titulo descricao tags (c, w) =
        Some (Inr None, c1, send_message ScriptNotReceived w1))"
  by (auto simp: collect_video_info_def collect_description_step_def
      collect_tags_step_def collect_script_step_def split: sum.splits exn.splits)

text \<open>
  A cancel directive during the first question: the body of \<open>collect_video_info\<close>
  catches the exception and returns no record.
\<close>

lemma collect_video_info_cancel:
  "map_option fst
     (collect_video_info
        (example_env\<lparr>title_rounds := [turn 2 (Batch [text_update 100 ''/cancel''])]\<rparr>)
        (TelegramCollector ''42'' (Batch []), empty_world)) = Some (Inr None)"
  by (simp add: conversation_eval wait_eval example_env_def turn_def py_int_def
      send_message_def empty_world_def Let_def text_update_def string_eval)

end
